theory Spec2Isabelle
  imports Complex_Main "HOL-Library.AList"
begin

section \<open>Errors\<close>

text \<open>
  The notebooks raise nothing themselves; what can go wrong is an error of the Python
  interpreter (a division by zero, a missing dictionary key, an operation on \<open>None\<close>) or an
  error raised inside a call of the deep-learning framework. Both are values of one type, and
  a computation that can fail returns \<open>error + 'a\<close> with \<open>Inl\<close> for the error.
\<close>

datatype error =
    ZeroDivisionError
  | TypeError
  | KeyError
  | IndexError
  | RuntimeError
  | RecursionError
  | FrameworkError string

text \<open>Sequencing: an error ends the computation, a value is passed on.\<close>

definition ebind :: "error + 'a \<Rightarrow> ('a \<Rightarrow> error + 'b) \<Rightarrow> error + 'b" where
  "ebind m f = (case m of Inl e \<Rightarrow> Inl e | Inr x \<Rightarrow> f x)"

section \<open>Tensors: shape and row-major elements\<close>

record 'a tensor =
  shape :: "nat list"
  elems :: "'a list"

text \<open>The size of dimension 1 (the sequence dimension of a batch-first tensor).\<close>

definition seq_len :: "'a tensor \<Rightarrow> nat" where
  "seq_len t = (case shape t of _ # s # _ \<Rightarrow> s | _ \<Rightarrow> 0)"

fun chunks :: "nat \<Rightarrow> nat \<Rightarrow> 'a list \<Rightarrow> 'a list list" where
  "chunks n 0 xs = []"
| "chunks n (Suc k) xs = take n xs # chunks n k (drop n xs)"

text \<open>
  The slice \<^verbatim>\<open>hidden_states[:, -1:, :]\<close>: three indices need a tensor of at least three
  dimensions; \<^verbatim>\<open>-1:\<close> keeps the last position of dimension 1, and nothing when that
  dimension is empty.
\<close>

definition last_position :: "'a tensor \<Rightarrow> error + 'a tensor" where
  "last_position t =
     (case shape t of
        b # s # d # rest \<Rightarrow>
          (let inner = prod_list (d # rest); keep = min 1 s
           in Inr \<lparr>shape = b # keep # d # rest,
                   elems = concat (map (drop ((s - keep) * inner)) (chunks (s * inner) b (elems t)))\<rparr>)
      | _ \<Rightarrow> Inl IndexError)"

text \<open>
  \<^verbatim>\<open>torch.cat([x, y], dim=1)\<close>. A tensor without dimensions cannot be concatenated
  (\<^verbatim>\<open>RuntimeError\<close>). An empty one-dimensional operand, of shape \<open>[0]\<close>, is skipped: two of
  them give an empty one-dimensional tensor, one of them gives the other operand. The first
  operand that is not skipped has to have a dimension 1 (\<^verbatim>\<open>IndexError\<close> otherwise), and two
  operands that are not skipped have to have the same number of dimensions and equal sizes in
  every dimension but dimension 1 (\<^verbatim>\<open>RuntimeError\<close> otherwise), whose sizes add up.
\<close>

definition torch_cat_dim1 :: "'a tensor \<Rightarrow> 'a tensor \<Rightarrow> error + 'a tensor" where
  "torch_cat_dim1 x y =
     (if shape x = [] \<or> shape y = [] then Inl RuntimeError
      else if shape x = [0] \<and> shape y = [0] then Inr \<lparr>shape = [0], elems = []\<rparr>
      else if shape x = [0] then (if length (shape y) = 1 then Inl IndexError else Inr y)
      else if length (shape x) = 1 then Inl IndexError
      else if shape y = [0] then Inr x
      else (case (shape x, shape y) of
              (b # s # rest, b' # s' # rest') \<Rightarrow>
                (if b = b' \<and> rest = rest'
                 then (let inner = prod_list rest
                       in Inr \<lparr>shape = b # (s + s') # rest,
                               elems = concat (map2 (@) (chunks (s * inner) b (elems x))
                                                        (chunks (s' * inner) b (elems y)))\<rparr>)
                 else Inl RuntimeError)
            | _ \<Rightarrow> Inl RuntimeError))"

section \<open>Key-value caching attention (language-model notebook)\<close>

text \<open>
  \<^verbatim>\<open>QuantizedAttention.__init__\<close> replaces the three projections of the wrapped attention
  by their dynamically quantized versions; \<^verbatim>\<open>CachedQuantizedAttention.__init__\<close> calls it
  and sets both caches to \<open>None\<close>. A projection is a callable of the framework: it maps a
  tensor to a tensor, or raises.
\<close>

type_synonym 'a layer = "'a tensor \<Rightarrow> error + 'a tensor"

record 'a attention =
  query :: "'a layer"
  key :: "'a layer"
  value' :: "'a layer"

record 'a cached_attention = "'a attention" +
  cached_key :: "'a tensor option"
  cached_value :: "'a tensor option"

definition QuantizedAttention_init ::
  "('a layer \<Rightarrow> error + 'a layer) \<Rightarrow> 'a attention \<Rightarrow> error + 'a attention" where
  "QuantizedAttention_init quantize_dynamic attention =
     ebind (quantize_dynamic (query attention)) (\<lambda>q.
     ebind (quantize_dynamic (key attention)) (\<lambda>k.
     ebind (quantize_dynamic (value' attention)) (\<lambda>v.
       Inr \<lparr>query = q, key = k, value' = v\<rparr>)))"

definition CachedQuantizedAttention_init ::
  "('a layer \<Rightarrow> error + 'a layer) \<Rightarrow> 'a attention \<Rightarrow> error + 'a cached_attention" where
  "CachedQuantizedAttention_init quantize_dynamic attention =
     ebind (QuantizedAttention_init quantize_dynamic attention) (\<lambda>self.
       Inr \<lparr>query = query self, key = key self, value' = value' self,
            cached_key = None, cached_value = None\<rparr>)"

text \<open>
  \<^verbatim>\<open>CachedQuantizedAttention.forward\<close>. The instance is mutable and outlives a call that
  raises, so the call returns the instance next to its result: an assignment made before the
  error stays made.
\<close>

definition forward ::
  "'a cached_attention \<Rightarrow> 'a tensor \<Rightarrow>
     (error + ('a tensor \<times> 'a tensor \<times> 'a tensor)) \<times> 'a cached_attention" where
  "forward self hidden_states =
     (case query self hidden_states of
        Inl e \<Rightarrow> (Inl e, self)
      | Inr query_layer \<Rightarrow>
         (case cached_key self of
            None \<Rightarrow>
              (case key self hidden_states of
                 Inl e \<Rightarrow> (Inl e, self)
               | Inr key_layer \<Rightarrow>
                  (case value' self hidden_states of
                     Inl e \<Rightarrow> (Inl e, self)
                   | Inr value_layer \<Rightarrow>
                       (Inr (query_layer, key_layer, value_layer),
                        self\<lparr>cached_key := Some key_layer, cached_value := Some value_layer\<rparr>)))
          | Some ck \<Rightarrow>
              (case last_position hidden_states of
                 Inl e \<Rightarrow> (Inl e, self)
               | Inr last_hidden_state \<Rightarrow>
                  (case key self last_hidden_state of
                     Inl e \<Rightarrow> (Inl e, self)
                   | Inr key_layer \<Rightarrow>
                      (case value' self last_hidden_state of
                         Inl e \<Rightarrow> (Inl e, self)
                       | Inr value_layer \<Rightarrow>
                          (case torch_cat_dim1 ck key_layer of
                             Inl e \<Rightarrow> (Inl e, self)
                           | Inr ck' \<Rightarrow>
                              (case cached_value self of
                                 None \<Rightarrow> (Inl TypeError, self\<lparr>cached_key := Some ck'\<rparr>)
                               | Some cv \<Rightarrow>
                                  (case torch_cat_dim1 cv value_layer of
                                     Inl e \<Rightarrow> (Inl e, self\<lparr>cached_key := Some ck'\<rparr>)
                                   | Inr cv' \<Rightarrow>
                                       (Inr (query_layer, ck', cv'),
                                        self\<lparr>cached_key := Some ck',
                                             cached_value := Some cv'\<rparr>)))))))))"

text \<open>Calls made one after the other on one instance; the first error ends the sequence.\<close>

fun forward_calls ::
  "'a cached_attention \<Rightarrow> 'a tensor list \<Rightarrow>
     (error + ('a tensor \<times> 'a tensor \<times> 'a tensor) list) \<times> 'a cached_attention" where
  "forward_calls self [] = (Inr [], self)"
| "forward_calls self (h # hs) =
     (case forward self h of
        (Inl e, self') \<Rightarrow> (Inl e, self')
      | (Inr out, self') \<Rightarrow>
          (case forward_calls self' hs of
             (Inl e, self'') \<Rightarrow> (Inl e, self'')
           | (Inr outs, self'') \<Rightarrow> (Inr (out # outs), self'')))"

text \<open>
  A linear layer acts on the last dimension only: the output has the input's dimensions but
  the last.
\<close>

definition linear_layer :: "'a layer \<Rightarrow> bool" where
  "linear_layer f \<longleftrightarrow>
     (\<forall>x y. f x = Inr y \<longrightarrow> length (shape y) = length (shape x) \<and> butlast (shape y) = butlast (shape x))"

text \<open>Example layers and tensors: a layer that multiplies every element by a constant.\<close>

definition scale_layer :: "int \<Rightarrow> int layer" where
  "scale_layer c x = Inr (x\<lparr>elems := map ((*) c) (elems x)\<rparr>)"

definition example_attention :: "int cached_attention" where
  "example_attention =
     \<lparr>query = scale_layer 1, key = scale_layer 2, value' = scale_layer 3,
      cached_key = None, cached_value = None\<rparr>"

text \<open>
  A layer that is not linear in this sense: it returns every sequence of positions twice, one
  after the other.
\<close>

definition twice_layer :: "'a layer" where
  "twice_layer x = torch_cat_dim1 x x"

definition example_attention_twice :: "int cached_attention" where
  "example_attention_twice = example_attention\<lparr>key := twice_layer, value' := twice_layer\<rparr>"

section \<open>Layer fusion (vision notebook)\<close>

text \<open>
  \<^verbatim>\<open>fuse_bn_recursively\<close> changes modules in place, and two names can hold the same module,
  so modules are objects in a heap: a reference is an index, and an object has the classes of
  its method resolution order (its class first), its own parameters, and the ordered
  dictionary \<^verbatim>\<open>_modules\<close> of its named children, in which an entry can be \<^verbatim>\<open>None\<close>. The
  dictionary is the list of its items; a lookup finds the first item of a name, and the
  names of a dictionary are distinct. \<^verbatim>\<open>torch.nn.Identity()\<close> is a new object without
  parameters or children.
\<close>

type_synonym ref = nat

record 'p module_obj =
  mro :: "string list"
  params :: "'p list"
  modules_dict :: "(string \<times> ref option) list"

type_synonym 'p heap = "'p module_obj list"


text \<open>
  \<^verbatim>\<open>isinstance(module, C)\<close> holds when \<open>C\<close> is the class of the object or one of its base
  classes. A class is written by its name, and \<open>''BatchNorm2d''\<close> is the class
  \<^verbatim>\<open>torch.nn.BatchNorm2d\<close>: another class has another name. \<open>names\<close> are the keys of \<^verbatim>\<open>_modules\<close> in order, \<open>child\<close> is the module registered
  under a name, and \<^verbatim>\<open>list(module.named_children())\<close> is non-empty when some name holds a
  module. A reference beyond the heap stands for no object; the heaps of a run have none.
\<close>

definition isinstance :: "'p heap \<Rightarrow> ref \<Rightarrow> string \<Rightarrow> bool" where
  "isinstance h r c \<longleftrightarrow> r < length h \<and> c \<in> set (mro (h ! r))"


definition child :: "'p heap \<Rightarrow> ref \<Rightarrow> string \<Rightarrow> ref option" where
  "child h r name =
     (if r < length h
      then (case map_of (modules_dict (h ! r)) name of Some (Some c) \<Rightarrow> Some c | _ \<Rightarrow> None)
      else None)"


text \<open>
  \<^verbatim>\<open>setattr(model, name, v)\<close> for a name that holds a module and a module \<open>v\<close>: the entry of
  \<^verbatim>\<open>_modules\<close> is replaced where it stands.
\<close>

definition setattr :: "'p heap \<Rightarrow> ref \<Rightarrow> string \<Rightarrow> ref \<Rightarrow> 'p heap" where
  "setattr h r name v =
     h[r := (h ! r)\<lparr>modules_dict := AList.update name (Some v) (modules_dict (h ! r))\<rparr>]"


text \<open>
  The submodule at a path of child names, as \<^verbatim>\<open>get_submodule\<close> finds it, and the paths on
  which no module below the start is an instance of \<^verbatim>\<open>BatchNorm2d\<close>.
\<close>

fun get_submodule :: "'p heap \<Rightarrow> ref \<Rightarrow> string list \<Rightarrow> ref option" where
  "get_submodule h r [] = (if r < length h then Some r else None)"
| "get_submodule h r (n # p) =
     (case child h r n of None \<Rightarrow> None | Some c \<Rightarrow> get_submodule h c p)"

fun bn_free_path :: "'p heap \<Rightarrow> ref \<Rightarrow> string list \<Rightarrow> bool" where
  "bn_free_path h r [] = True"
| "bn_free_path h r (n # p) =
     (case child h r n of
        None \<Rightarrow> True
      | Some c \<Rightarrow> \<not> isinstance h c ''BatchNorm2d'' \<and> bn_free_path h c p)"









section \<open>Python numbers\<close>

text \<open>
  A Python number is an \<^verbatim>\<open>int\<close>, of any size, or a \<^verbatim>\<open>float\<close>, a double. The arithmetic of
  doubles is not that of the reals: every operation rounds, sums depend on the order of the
  summands, and there are infinities and values that are not numbers. It is a parameter
  here: the type \<open>'f\<close> of the doubles, the double of an integer, the four operations on
  doubles, the double of the quotient of two integers, and the test \<^verbatim>\<open>x == 0.0\<close>. (The
  double of an integer, and of a quotient of integers, exists below \<open>2 ^ 1024\<close>; the integers
  converted here are counts of batches, of examples and of runs.)
\<close>

record 'f float_arith =
  float_of_int :: "int \<Rightarrow> 'f"
  float_add :: "'f \<Rightarrow> 'f \<Rightarrow> 'f"
  float_sub :: "'f \<Rightarrow> 'f \<Rightarrow> 'f"
  float_mul :: "'f \<Rightarrow> 'f \<Rightarrow> 'f"
  float_truediv :: "'f \<Rightarrow> 'f \<Rightarrow> 'f"
  int_truediv :: "int \<Rightarrow> int \<Rightarrow> 'f"
  float_is_zero :: "'f \<Rightarrow> bool"

datatype 'f number = PyInt int | PyFloat 'f

text \<open>
  \<^verbatim>\<open>a + b\<close>, \<^verbatim>\<open>a - b\<close> and \<^verbatim>\<open>a * b\<close>: exact on two integers; with a float among the operands,
  an integer operand is converted and the operation is that of the doubles.
\<close>

fun py_add :: "'f float_arith \<Rightarrow> 'f number \<Rightarrow> 'f number \<Rightarrow> 'f number" where
  "py_add ar (PyInt i) (PyInt j) = PyInt (i + j)"
| "py_add ar (PyInt i) (PyFloat y) = PyFloat (float_add ar (float_of_int ar i) y)"
| "py_add ar (PyFloat x) (PyInt j) = PyFloat (float_add ar x (float_of_int ar j))"
| "py_add ar (PyFloat x) (PyFloat y) = PyFloat (float_add ar x y)"

fun py_sub :: "'f float_arith \<Rightarrow> 'f number \<Rightarrow> 'f number \<Rightarrow> 'f number" where
  "py_sub ar (PyInt i) (PyInt j) = PyInt (i - j)"
| "py_sub ar (PyInt i) (PyFloat y) = PyFloat (float_sub ar (float_of_int ar i) y)"
| "py_sub ar (PyFloat x) (PyInt j) = PyFloat (float_sub ar x (float_of_int ar j))"
| "py_sub ar (PyFloat x) (PyFloat y) = PyFloat (float_sub ar x y)"

fun py_mul :: "'f float_arith \<Rightarrow> 'f number \<Rightarrow> 'f number \<Rightarrow> 'f number" where
  "py_mul ar (PyInt i) (PyInt j) = PyInt (i * j)"
| "py_mul ar (PyInt i) (PyFloat y) = PyFloat (float_mul ar (float_of_int ar i) y)"
| "py_mul ar (PyFloat x) (PyInt j) = PyFloat (float_mul ar x (float_of_int ar j))"
| "py_mul ar (PyFloat x) (PyFloat y) = PyFloat (float_mul ar x y)"

text \<open>
  Python's true division \<^verbatim>\<open>a / b\<close>: a zero divisor raises, and the quotient is a float,
  also of two integers.
\<close>

fun divisor_is_zero :: "'f float_arith \<Rightarrow> 'f number \<Rightarrow> bool" where
  "divisor_is_zero ar (PyInt j) = (j = 0)"
| "divisor_is_zero ar (PyFloat y) = float_is_zero ar y"

fun py_quotient :: "'f float_arith \<Rightarrow> 'f number \<Rightarrow> 'f number \<Rightarrow> 'f" where
  "py_quotient ar (PyInt i) (PyInt j) = int_truediv ar i j"
| "py_quotient ar (PyInt i) (PyFloat y) = float_truediv ar (float_of_int ar i) y"
| "py_quotient ar (PyFloat x) (PyInt j) = float_truediv ar x (float_of_int ar j)"
| "py_quotient ar (PyFloat x) (PyFloat y) = float_truediv ar x y"

definition py_div :: "'f float_arith \<Rightarrow> 'f number \<Rightarrow> 'f number \<Rightarrow> error + 'f" where
  "py_div ar a b = (if divisor_is_zero ar b then Inl ZeroDivisionError else Inr (py_quotient ar a b))"


text \<open>An arithmetic without rounding, on the reals, to run the functions on.\<close>

definition exact_arith :: "real float_arith" where
  "exact_arith =
     \<lparr>float_of_int = real_of_int, float_add = (+), float_sub = (-), float_mul = (*),
      float_truediv = (/), int_truediv = (\<lambda>i j. real_of_int i / real_of_int j),
      float_is_zero = (\<lambda>x. x = 0)\<rparr>"

section \<open>Training and validation loops\<close>

text \<open>
  The framework, as the loops use it. \<open>'s\<close> is everything the framework mutates (the model's
  parameters and mode, the optimizer, the gradient scaler), \<open>'t\<close> is a tensor, \<open>'f\<close> a double.
  Every call can raise. A call made inside a \<^verbatim>\<open>with\<close> block takes the block's mode.
  \<^verbatim>\<open>outputs.max(1)\<close> gives, next to the maxima, the index of the maximum of every row, the
  argmax; \<open>max1\<close> is these indices. \<^verbatim>\<open>loss.item()\<close> is a Python number.
\<close>

datatype mode = Autocast | NoGrad | Default

record ('s, 't, 'f) torch =
  GradScaler :: "'s \<Rightarrow> error + 's"
  model_train :: "'s \<Rightarrow> error + 's"
  model_eval :: "'s \<Rightarrow> error + 's"
  to_device :: "mode \<Rightarrow> 't \<Rightarrow> error + 't"
  clone :: "mode \<Rightarrow> 't \<Rightarrow> error + 't"
  zero_grad :: "'s \<Rightarrow> error + 's"
  model_call :: "mode \<Rightarrow> 's \<Rightarrow> 't \<Rightarrow> error + ('t \<times> 's)"
  model_call_labels :: "mode \<Rightarrow> 's \<Rightarrow> 't \<Rightarrow> 't \<Rightarrow> error + ('t \<times> 's)"
  criterion :: "mode \<Rightarrow> 't \<Rightarrow> 't \<Rightarrow> error + 't"
  scale :: "'s \<Rightarrow> 't \<Rightarrow> error + 't"
  backward :: "'s \<Rightarrow> 't \<Rightarrow> error + 's"
  scaler_step :: "'s \<Rightarrow> error + 's"
  scaler_update :: "'s \<Rightarrow> error + 's"
  item :: "'t \<Rightarrow> error + 'f number"
  max1 :: "'t \<Rightarrow> error + 't"
  size0 :: "'t \<Rightarrow> error + nat"
  eq_sum_item :: "'t \<Rightarrow> 't \<Rightarrow> error + nat"

text \<open>
  One iteration of the loop of \<^verbatim>\<open>train_epoch\<close>: the new framework state, \<^verbatim>\<open>loss.item()\<close>,
  \<^verbatim>\<open>targets.size(0)\<close> and \<^verbatim>\<open>predicted.eq(targets).sum().item()\<close>.
\<close>

definition train_batch ::
  "('s, 't, 'f) torch \<Rightarrow> 's \<Rightarrow> 't \<times> 't \<Rightarrow> error + ('s \<times> 'f number \<times> nat \<times> nat)" where
  "train_batch fw s batch =
     ebind (to_device fw Default (fst batch)) (\<lambda>inputs.
     ebind (to_device fw Default (snd batch)) (\<lambda>targets.
     ebind (zero_grad fw s) (\<lambda>s.
     ebind (model_call fw Autocast s inputs) (\<lambda>(outputs, s).
     ebind (criterion fw Autocast outputs targets) (\<lambda>loss.
     ebind (scale fw s loss) (\<lambda>scaled.
     ebind (backward fw s scaled) (\<lambda>s.
     ebind (scaler_step fw s) (\<lambda>s.
     ebind (scaler_update fw s) (\<lambda>s.
     ebind (item fw loss) (\<lambda>loss_item.
     ebind (max1 fw outputs) (\<lambda>predicted.
     ebind (size0 fw targets) (\<lambda>n.
     ebind (eq_sum_item fw predicted targets) (\<lambda>c.
       Inr (s, loss_item, n, c))))))))))))))"

text \<open>One iteration of the loop of \<^verbatim>\<open>validate\<close>, inside \<^verbatim>\<open>torch.no_grad()\<close>.\<close>

definition validate_batch ::
  "('s, 't, 'f) torch \<Rightarrow> 's \<Rightarrow> 't \<times> 't \<Rightarrow> error + ('s \<times> 'f number \<times> nat \<times> nat)" where
  "validate_batch fw s batch =
     ebind (to_device fw NoGrad (fst batch)) (\<lambda>inputs.
     ebind (to_device fw NoGrad (snd batch)) (\<lambda>targets.
     ebind (model_call fw NoGrad s inputs) (\<lambda>(outputs, s).
     ebind (criterion fw NoGrad outputs targets) (\<lambda>loss.
     ebind (item fw loss) (\<lambda>loss_item.
     ebind (max1 fw outputs) (\<lambda>predicted.
     ebind (size0 fw targets) (\<lambda>n.
     ebind (eq_sum_item fw predicted targets) (\<lambda>c.
       Inr (s, loss_item, n, c)))))))))"

text \<open>
  The \<^verbatim>\<open>for\<close> loop over the loader with its three accumulators \<^verbatim>\<open>total_loss\<close>,
  \<^verbatim>\<open>correct\<close> and \<^verbatim>\<open>total\<close> (written \<open>total'\<close>); \<open>step\<close> is the loop body. The two counters
  are integers that never go below zero.
\<close>

fun epoch_loop ::
  "'f float_arith \<Rightarrow> ('s \<Rightarrow> 'b \<Rightarrow> error + ('s \<times> 'f number \<times> nat \<times> nat)) \<Rightarrow> 's \<Rightarrow> 'b list \<Rightarrow>
     'f number \<times> nat \<times> nat \<Rightarrow> error + ('s \<times> 'f number \<times> nat \<times> nat)" where
  "epoch_loop ar step s [] acc = Inr (s, acc)"
| "epoch_loop ar step s (batch # loader) (total_loss, correct, total') =
     ebind (step s batch) (\<lambda>(s, loss_item, n, c).
       epoch_loop ar step s loader (py_add ar total_loss loss_item, correct + c, total' + n))"

text \<open>
  \<^verbatim>\<open>return total_loss / len(loader), 100. * correct / total\<close>: the tuple is built left to
  right, so the division by the number of batches comes first. \<^verbatim>\<open>100.\<close> is the double of 100.
\<close>

definition epoch_result ::
  "'f float_arith \<Rightarrow> 'b list \<Rightarrow> 's \<times> 'f number \<times> nat \<times> nat \<Rightarrow> error + (('f \<times> 'f) \<times> 's)" where
  "epoch_result ar loader r =
     (case r of (s, total_loss, correct, total') \<Rightarrow>
        ebind (py_div ar total_loss (PyInt (int (length loader)))) (\<lambda>avg_loss.
        ebind (py_div ar (py_mul ar (PyFloat (float_of_int ar 100)) (PyInt (int correct)))
                 (PyInt (int total'))) (\<lambda>accuracy.
          Inr ((avg_loss, accuracy), s))))"

definition train_epoch ::
  "'f float_arith \<Rightarrow> ('s, 't, 'f) torch \<Rightarrow> 's \<Rightarrow> ('t \<times> 't) list \<Rightarrow> error + (('f \<times> 'f) \<times> 's)" where
  "train_epoch ar fw s loader =
     ebind (model_train fw s) (\<lambda>s.
     ebind (epoch_loop ar (train_batch fw) s loader (PyInt 0, 0, 0)) (epoch_result ar loader))"

definition validate ::
  "'f float_arith \<Rightarrow> ('s, 't, 'f) torch \<Rightarrow> 's \<Rightarrow> ('t \<times> 't) list \<Rightarrow> error + (('f \<times> 'f) \<times> 's)" where
  "validate ar fw s loader =
     ebind (model_eval fw s) (\<lambda>s.
     ebind (epoch_loop ar (validate_batch fw) s loader (PyInt 0, 0, 0)) (epoch_result ar loader))"

text \<open>
  \<^verbatim>\<open>fine_tune\<close> of the language-model notebook. A batch is a dictionary; the loss of a batch
  is \<^verbatim>\<open>model(inputs, labels=labels).loss\<close>. The function returns nothing: its result here is
  what it prints, the average loss of every epoch, in order.
\<close>

definition fine_tune_batch ::
  "('s, 't, 'f) torch \<Rightarrow> 's \<Rightarrow> (string \<rightharpoonup> 't) \<Rightarrow> error + ('s \<times> 'f number)" where
  "fine_tune_batch fw s batch =
     ebind (zero_grad fw s) (\<lambda>s.
     ebind (case batch ''input_ids'' of None \<Rightarrow> Inl KeyError | Some t \<Rightarrow> Inr t) (\<lambda>input_ids.
     ebind (to_device fw Autocast input_ids) (\<lambda>inputs.
     ebind (clone fw Autocast inputs) (\<lambda>labels.
     ebind (model_call_labels fw Autocast s inputs labels) (\<lambda>(loss, s).
     ebind (scale fw s loss) (\<lambda>scaled.
     ebind (backward fw s scaled) (\<lambda>s.
     ebind (scaler_step fw s) (\<lambda>s.
     ebind (scaler_update fw s) (\<lambda>s.
     ebind (item fw loss) (\<lambda>loss_item.
       Inr (s, loss_item)))))))))))"

fun fine_tune_loop ::
  "'f float_arith \<Rightarrow> ('s, 't, 'f) torch \<Rightarrow> 's \<Rightarrow> (string \<rightharpoonup> 't) list \<Rightarrow> 'f number \<Rightarrow>
     error + ('s \<times> 'f number)" where
  "fine_tune_loop ar fw s [] total_loss = Inr (s, total_loss)"
| "fine_tune_loop ar fw s (batch # loader) total_loss =
     ebind (fine_tune_batch fw s batch) (\<lambda>(s, loss_item).
       fine_tune_loop ar fw s loader (py_add ar total_loss loss_item))"

text \<open>The epochs of \<^verbatim>\<open>for epoch in range(epochs)\<close> still to run, and what was printed so far.\<close>

fun fine_tune_epochs ::
  "'f float_arith \<Rightarrow> ('s, 't, 'f) torch \<Rightarrow> 's \<Rightarrow> (string \<rightharpoonup> 't) list \<Rightarrow> nat \<Rightarrow> 'f list \<Rightarrow>
     error + ('f list \<times> 's)" where
  "fine_tune_epochs ar fw s train_dataloader 0 printed = Inr (printed, s)"
| "fine_tune_epochs ar fw s train_dataloader (Suc k) printed =
     ebind (fine_tune_loop ar fw s train_dataloader (PyInt 0)) (\<lambda>(s, total_loss).
     ebind (py_div ar total_loss (PyInt (int (length train_dataloader)))) (\<lambda>avg_loss.
       fine_tune_epochs ar fw s train_dataloader k (printed @ [avg_loss])))"

definition fine_tune ::
  "'f float_arith \<Rightarrow> ('s, 't, 'f) torch \<Rightarrow> 's \<Rightarrow> (string \<rightharpoonup> 't) list \<Rightarrow> int \<Rightarrow>
     error + ('f list \<times> 's)" where
  "fine_tune ar fw s train_dataloader epochs =
     ebind (GradScaler fw s) (\<lambda>s.
     ebind (model_train fw s) (\<lambda>s.
       fine_tune_epochs ar fw s train_dataloader (nat epochs) []))"




text \<open>
  A small framework to run the loops on: tensors are lists of integers, the state counts the
  backward passes, the model returns its input, the loss counts the positions where output
  and target differ.
\<close>

definition toy_torch :: "(nat, int list, real) torch" where
  "toy_torch =
     \<lparr>GradScaler = Inr, model_train = Inr, model_eval = Inr,
      to_device = (\<lambda>m t. Inr t), clone = (\<lambda>m t. Inr t), zero_grad = Inr,
      model_call = (\<lambda>m s x. Inr (x, s)),
      model_call_labels = (\<lambda>m s x y. Inr ([sum_list x], s)),
      criterion = (\<lambda>m out y. Inr [int (length (filter (\<lambda>p. fst p \<noteq> snd p) (zip out y)))]),
      scale = (\<lambda>s t. Inr t), backward = (\<lambda>s t. Inr (Suc s)),
      scaler_step = Inr, scaler_update = Inr,
      item = (\<lambda>t. Inr (PyFloat (real_of_int (sum_list t)))),
      max1 = Inr, size0 = (\<lambda>t. Inr (length t)),
      eq_sum_item = (\<lambda>p y. Inr (length (filter (\<lambda>q. fst q = snd q) (zip p y))))\<rparr>"

section \<open>Post-training quantization (language-model notebook)\<close>

text \<open>
  A model object holds references to its submodules: two objects that hold the same
  reference share the submodule. \<^verbatim>\<open>model.transformer.wte\<close>, \<^verbatim>\<open>model.transformer.wpe\<close> and
  \<^verbatim>\<open>model.lm_head\<close> are the attributes \<^verbatim>\<open>apply_ptq\<close> reads and writes, \<^verbatim>\<open>qconfig\<close> the one
  it sets.
\<close>

record 'q gpt2 =
  qconfig :: "'q option"
  wte :: ref
  wpe :: ref
  lm_head :: ref

text \<open>
  The quantization interface of the framework over its state \<open>'h\<close>, the submodules behind
  the references. \<^verbatim>\<open>prepare\<close> and \<^verbatim>\<open>convert\<close> return a new model object; a call of a model
  takes the mode of the \<^verbatim>\<open>with\<close> block around it; \<^verbatim>\<open>half\<close> is \<^verbatim>\<open>Module.half\<close> of the
  submodule behind a reference.
\<close>

record ('h, 'q, 't) quantization =
  get_default_qconfig :: "string \<Rightarrow> error + 'q"
  prepare :: "'h \<Rightarrow> 'q gpt2 \<Rightarrow> error + ('q gpt2 \<times> 'h)"
  convert :: "'h \<Rightarrow> 'q gpt2 \<Rightarrow> error + ('q gpt2 \<times> 'h)"
  input_to_device :: "'t \<Rightarrow> error + 't"
  model_forward :: "mode \<Rightarrow> 'h \<Rightarrow> 'q gpt2 \<Rightarrow> 't \<Rightarrow> error + ('t \<times> 'h)"
  half :: "'h \<Rightarrow> ref \<Rightarrow> error + (ref \<times> 'h)"

text \<open>\<^verbatim>\<open>inputs = batch["input_ids"].to(device)\<close>\<close>

definition batch_inputs :: "('h, 'q, 't) quantization \<Rightarrow> (string \<rightharpoonup> 't) \<Rightarrow> error + 't" where
  "batch_inputs fw batch =
     ebind (case batch ''input_ids'' of None \<Rightarrow> Inl KeyError | Some t \<Rightarrow> Inr t)
       (input_to_device fw)"

text \<open>The calibration loop, inside \<^verbatim>\<open>torch.no_grad()\<close>; the output of the model is dropped.\<close>

fun calibrate ::
  "('h, 'q, 't) quantization \<Rightarrow> 'h \<Rightarrow> 'q gpt2 \<Rightarrow> (string \<rightharpoonup> 't) list \<Rightarrow> error + 'h" where
  "calibrate fw h model_prepared [] = Inr h"
| "calibrate fw h model_prepared (batch # train_dataloader) =
     ebind (batch_inputs fw batch) (\<lambda>inputs.
     ebind (model_forward fw NoGrad h model_prepared inputs) (\<lambda>(out, h).
       calibrate fw h model_prepared train_dataloader))"

text \<open>
  \<^verbatim>\<open>apply_ptq\<close>. The loader is the notebook's global \<^verbatim>\<open>train_dataloader\<close>. The result is the
  returned model, the argument as the call leaves it, and the framework state.
\<close>

definition apply_ptq ::
  "('h, 'q, 't) quantization \<Rightarrow> 'h \<Rightarrow> 'q gpt2 \<Rightarrow> (string \<rightharpoonup> 't) list \<Rightarrow>
     error + ('q gpt2 \<times> 'q gpt2 \<times> 'h)" where
  "apply_ptq fw h model train_dataloader =
     ebind (get_default_qconfig fw ''fbgemm'') (\<lambda>qc.
     ebind (prepare fw h (model\<lparr>qconfig := Some qc\<rparr>)) (\<lambda>(model_prepared, h).
     ebind (calibrate fw h model_prepared train_dataloader) (\<lambda>h.
     ebind (convert fw h model_prepared) (\<lambda>(model_quantized, h).
     ebind (half fw h (wte model)) (\<lambda>(r, h).
     ebind (half fw h (wpe model)) (\<lambda>(r', h).
     ebind (half fw h (lm_head model)) (\<lambda>(r'', h).
       Inr (model_quantized\<lparr>wte := r, wpe := r', lm_head := r''\<rparr>,
            model\<lparr>qconfig := Some qc\<rparr>, h))))))))"

text \<open>
  Submodules with a precision, parameters and the statistics their observers have collected,
  and \<^verbatim>\<open>torch.nn.Module.half\<close> as the framework documents it: it casts the parameters of the
  module in place and returns the module itself.
\<close>

datatype dtype = FP32 | FP16 | INT8

record 'w submodule =
  precision :: dtype
  parameters :: 'w
  observed :: nat

definition Module_half ::
  "('w \<Rightarrow> 'w) \<Rightarrow> (ref \<Rightarrow> 'w submodule) \<Rightarrow> ref \<Rightarrow> error + (ref \<times> (ref \<Rightarrow> 'w submodule))" where
  "Module_half cast h r =
     Inr (r, h(r := (h r)\<lparr>precision := FP16, parameters := cast (parameters (h r))\<rparr>))"

text \<open>
  The same interface, keeping a log of the calls that change or read the framework state, in
  the order they are made.
\<close>

datatype 't event = Prepare | ModelCall mode 't | Convert | Half ref

definition logged ::
  "('h, 'q, 't) quantization \<Rightarrow> ('h \<times> 't event list, 'q, 't) quantization" where
  "logged fw =
     \<lparr>get_default_qconfig = get_default_qconfig fw,
      prepare = (\<lambda>hl m. ebind (prepare fw (fst hl) m) (\<lambda>(m', h').
                   Inr (m', (h', snd hl @ [Prepare])))),
      convert = (\<lambda>hl m. ebind (convert fw (fst hl) m) (\<lambda>(m', h').
                   Inr (m', (h', snd hl @ [Convert])))),
      input_to_device = input_to_device fw,
      model_forward = (\<lambda>md hl m x. ebind (model_forward fw md (fst hl) m x) (\<lambda>(y, h').
                   Inr (y, (h', snd hl @ [ModelCall md x])))),
      half = (\<lambda>hl r. ebind (half fw (fst hl) r) (\<lambda>(r', h').
                   Inr (r', (h', snd hl @ [Half r]))))\<rparr>"

text \<open>
  A small framework to run \<^verbatim>\<open>apply_ptq\<close> on: \<^verbatim>\<open>prepare\<close> and \<^verbatim>\<open>convert\<close> copy the three
  submodules to fresh references (ten and twenty above the originals), \<^verbatim>\<open>convert\<close> makes the
  copies \<^verbatim>\<open>INT8\<close>, and a call of the model counts, in the observer of its \<^verbatim>\<open>wte\<close>, the batches
  it has seen.
\<close>

definition copy_model ::
  "nat \<Rightarrow> (dtype \<Rightarrow> dtype) \<Rightarrow> (ref \<Rightarrow> int submodule) \<Rightarrow> string gpt2 \<Rightarrow>
     error + (string gpt2 \<times> (ref \<Rightarrow> int submodule))" where
  "copy_model k f h m =
     Inr (m\<lparr>wte := wte m + k, wpe := wpe m + k, lm_head := lm_head m + k\<rparr>,
          h(wte m + k := (h (wte m))\<lparr>precision := f (precision (h (wte m)))\<rparr>,
            wpe m + k := (h (wpe m))\<lparr>precision := f (precision (h (wpe m)))\<rparr>,
            lm_head m + k := (h (lm_head m))\<lparr>precision := f (precision (h (lm_head m)))\<rparr>))"

definition toy_quantization :: "(ref \<Rightarrow> int submodule, string, int list) quantization" where
  "toy_quantization =
     \<lparr>get_default_qconfig = (\<lambda>backend. Inr backend),
      prepare = copy_model 10 (\<lambda>d. d),
      convert = copy_model 10 (\<lambda>d. INT8),
      input_to_device = Inr,
      model_forward =
        (\<lambda>md h m x. Inr (x, h(wte m := (h (wte m))\<lparr>observed := Suc (observed (h (wte m)))\<rparr>))),
      half = Module_half (\<lambda>w. w)\<rparr>"

definition toy_gpt2 :: "string gpt2" where
  "toy_gpt2 = \<lparr>qconfig = None, wte = 0, wpe = 1, lm_head = 2\<rparr>"

definition toy_heap :: "ref \<Rightarrow> int submodule" where
  "toy_heap = (\<lambda>r. \<lparr>precision = FP32, parameters = int r, observed = 0\<rparr>)"

text \<open>The inputs of every batch of the loader, in order.\<close>

fun batches_inputs ::
  "('h, 'q, 't) quantization \<Rightarrow> (string \<rightharpoonup> 't) list \<Rightarrow> error + 't list" where
  "batches_inputs fw [] = Inr []"
| "batches_inputs fw (batch # train_dataloader) =
     ebind (batch_inputs fw batch) (\<lambda>x.
     ebind (batches_inputs fw train_dataloader) (\<lambda>xs. Inr (x # xs)))"

section \<open>Attention-head pruning (vision notebook)\<close>

text \<open>
  The tensor operations \<^verbatim>\<open>prune_attention_heads\<close> calls, on tensors of reals.
  \<^verbatim>\<open>weight.view(3, num_heads, -1)\<close> needs the number of elements to be a multiple of
  \<open>3 * num_heads\<close>.
\<close>

definition view_3_heads :: "real tensor \<Rightarrow> nat \<Rightarrow> error + real tensor" where
  "view_3_heads t num_heads =
     (if num_heads = 0 \<or> prod_list (shape t) mod (3 * num_heads) \<noteq> 0 then Inl RuntimeError
      else Inr \<lparr>shape = [3, num_heads, prod_list (shape t) div (3 * num_heads)],
               elems = elems t\<rparr>)"

text \<open>\<^verbatim>\<open>torch.norm(x, dim=2)\<close> of a three-dimensional tensor: the 2-norm of every row.\<close>

definition norm_dim2 :: "real tensor \<Rightarrow> error + real tensor" where
  "norm_dim2 t =
     (case shape t of
        [a, b, c] \<Rightarrow>
          Inr \<lparr>shape = [a, b],
               elems = map (\<lambda>row. sqrt (sum_list (map (\<lambda>x. x * x) row)))
                         (chunks c (a * b) (elems t))\<rparr>
      | _ \<Rightarrow> Inl IndexError)"

text \<open>\<^verbatim>\<open>x.mean(dim=0)\<close> of a two-dimensional tensor: the mean of every column.\<close>

definition mean_dim0 :: "real tensor \<Rightarrow> error + real tensor" where
  "mean_dim0 t =
     (case shape t of
        [a, b] \<Rightarrow>
          Inr \<lparr>shape = [b],
               elems = map (\<lambda>j. sum_list (map (\<lambda>i. elems t ! (i * b + j)) [0..<a]) / real a)
                         [0..<b]\<rparr>
      | _ \<Rightarrow> Inl IndexError)"

text \<open>
  The indices \<^verbatim>\<open>torch.topk(x, k=k, largest=False)\<close> returns for a one-dimensional tensor:
  those of the \<open>k\<close> smallest elements, smallest first.
\<close>

definition topk_smallest :: "real tensor \<Rightarrow> int \<Rightarrow> error + nat list" where
  "topk_smallest t k =
     (if k < 0 \<or> int (length (elems t)) < k then Inl RuntimeError
      else Inr (take (nat k) (sort_key (\<lambda>i. elems t ! i) [0..<length (elems t)])))"

text \<open>Python's \<^verbatim>\<open>int\<close> of a float: towards zero.\<close>

definition py_int :: "real \<Rightarrow> int" where
  "py_int x = (if 0 \<le> x then \<lfloor>x\<rfloor> else \<lceil>x\<rceil>)"

text \<open>
  Broadcasting. Shapes are aligned at their last dimension and the shorter one is filled up
  with ones; two sizes agree when they are equal or one of them is 1.
\<close>

definition pad_shape :: "nat \<Rightarrow> nat list \<Rightarrow> nat list" where
  "pad_shape n s = replicate (n - length s) 1 @ s"

fun broadcast_dims :: "nat list \<Rightarrow> nat list \<Rightarrow> nat list option" where
  "broadcast_dims [] [] = Some []"
| "broadcast_dims (x # xs) (y # ys) =
     (case broadcast_dims xs ys of
        None \<Rightarrow> None
      | Some ds \<Rightarrow> (if x = y then Some (x # ds)
                    else if x = 1 then Some (y # ds)
                    else if y = 1 then Some (x # ds)
                    else None))"
| "broadcast_dims _ _ = None"

definition broadcast_shapes :: "nat list \<Rightarrow> nat list \<Rightarrow> nat list option" where
  "broadcast_shapes s s' =
     (let n = max (length s) (length s') in broadcast_dims (pad_shape n s) (pad_shape n s'))"

text \<open>The elements of a tensor of shape \<open>src\<close> expanded to the shape \<open>dst\<close> of the same length.\<close>

fun expand :: "nat list \<Rightarrow> nat list \<Rightarrow> 'a list \<Rightarrow> 'a list" where
  "expand (d # dst) (s # src) xs =
     (let blocks = map (expand dst src) (chunks (prod_list src) s xs)
      in if s = d then concat blocks else concat (replicate d (concat (take 1 blocks))))"
| "expand _ _ xs = xs"

text \<open>
  The in-place product \<^verbatim>\<open>x *= y\<close>: an in-place operation cannot change the shape of \<open>x\<close>, so
  the broadcast shape of the two operands has to be the shape of \<open>x\<close>.
\<close>

definition mul_inplace :: "real tensor \<Rightarrow> real tensor \<Rightarrow> error + real tensor" where
  "mul_inplace x y =
     (case broadcast_shapes (shape x) (shape y) of
        None \<Rightarrow> Inl RuntimeError
      | Some s \<Rightarrow>
          (if s \<noteq> shape x then Inl RuntimeError
           else Inr (x\<lparr>elems := map2 (*) (elems x)
                          (expand (shape x) (pad_shape (length (shape x)) (shape y)) (elems y))\<rparr>)))"

text \<open>\<^verbatim>\<open>x.squeeze()\<close> drops every dimension of size 1.\<close>

definition squeeze :: "'a tensor \<Rightarrow> 'a tensor" where
  "squeeze t = t\<lparr>shape := filter (\<lambda>d. d \<noteq> 1) (shape t)\<rparr>"

text \<open>
  A \<^verbatim>\<open>timm\<close> attention module: its number of heads and the weight and optional bias of its
  \<^verbatim>\<open>qkv\<close> layer. \<^verbatim>\<open>model.modules()\<close> is the list of the modules of the model.
\<close>

record vit_attention =
  num_heads :: nat
  qkv_weight :: "real tensor"
  qkv_bias :: "real tensor option"

datatype vit_module = VitAttention vit_attention | NotAttention

text \<open>
  The body of the loop of \<^verbatim>\<open>prune_attention_heads\<close> for one attention module \<open>m\<close> (the
  source's \<^verbatim>\<open>module\<close>).
\<close>

definition prune_heads :: "vit_attention \<Rightarrow> real \<Rightarrow> error + vit_attention" where
  "prune_heads m prune_ratio =
     (let num_prune = py_int (real (num_heads m) * prune_ratio) in
      ebind (view_3_heads (qkv_weight m) (num_heads m)) (\<lambda>viewed.
      ebind (norm_dim2 viewed) (\<lambda>head_importance.
      ebind (mean_dim0 head_importance) (\<lambda>head_importance.
      ebind (topk_smallest head_importance num_prune) (\<lambda>indices.
      (let mask = map (\<lambda>i. if i \<in> set indices then 0 else 1) [0..<num_heads m];
           mask = \<lparr>shape = [3 * num_heads m, 1, 1], elems = concat (replicate 3 mask)\<rparr>
       in ebind (mul_inplace (qkv_weight m) mask) (\<lambda>weight.
          (case qkv_bias m of
             None \<Rightarrow> Inr (m\<lparr>qkv_weight := weight\<rparr>)
           | Some bias \<Rightarrow>
               ebind (mul_inplace bias (squeeze mask)) (\<lambda>bias.
                 Inr (m\<lparr>qkv_weight := weight, qkv_bias := Some bias\<rparr>))))))))))"

fun prune_attention_heads :: "vit_module list \<Rightarrow> real \<Rightarrow> error + vit_module list" where
  "prune_attention_heads [] prune_ratio = Inr []"
| "prune_attention_heads (NotAttention # modules) prune_ratio =
     ebind (prune_attention_heads modules prune_ratio) (\<lambda>ms. Inr (NotAttention # ms))"
| "prune_attention_heads (VitAttention m # modules) prune_ratio =
     ebind (prune_heads m prune_ratio) (\<lambda>m'.
     ebind (prune_attention_heads modules prune_ratio) (\<lambda>ms. Inr (VitAttention m' # ms)))"

text \<open>An attention module with two heads of size one: \<^verbatim>\<open>qkv = Linear(2, 6)\<close>.\<close>

definition example_attention_module :: vit_attention where
  "example_attention_module =
     \<lparr>num_heads = 2,
      qkv_weight = \<lparr>shape = [6, 2], elems = [3, 4, 1, 0, 0, 2, 6, 8, 5, 12, 1, 1]\<rparr>,
      qkv_bias = Some \<lparr>shape = [6], elems = [1, 2, 3, 4, 5, 6]\<rparr>\<rparr>"

section \<open>The top level of the two notebooks\<close>

text \<open>
  The statements of the top level that act on the model, in the order of the cells. A cell
  that only imports, defines a function or prints has no step.
\<close>

datatype step =
    LoadPretrained
  | PrepareDataset
  | FineTuneMixedPrecision
  | ApplyPTQ
  | ApplyQAF
  | WrapQuantizedAttention
  | WrapCachedQuantizedAttention
  | PruneAttentionHeads
  | FuseBN
  | VerifyQuantizedAttention
  | ExportToOnnx
  | OnnxInference
  | OptimizeForMobile
  | SaveOptimized
  | Benchmark

text \<open>
  \<^verbatim>\<open>01_large_language_model_optimization.ipynb\<close>: \<^verbatim>\<open>from_pretrained\<close>; the dataset and
  \<^verbatim>\<open>fine_tune\<close>; \<^verbatim>\<open>apply_ptq\<close>; the two loops that replace \<^verbatim>\<open>layer.attn\<close>; \<^verbatim>\<open>export_to_onnx\<close>
  and \<^verbatim>\<open>onnx_inference\<close>; three calls of \<^verbatim>\<open>benchmark\<close>.
\<close>

definition language_model_notebook :: "step list" where
  "language_model_notebook =
     [LoadPretrained, PrepareDataset, FineTuneMixedPrecision, ApplyPTQ,
      WrapQuantizedAttention, WrapCachedQuantizedAttention,
      ExportToOnnx, OnnxInference, Benchmark, Benchmark, Benchmark]"

text \<open>
  \<^verbatim>\<open>02_vision_transformer_edge_optimization.ipynb\<close>: \<^verbatim>\<open>timm.create_model\<close>; the datasets;
  the fine-tuning loop; \<^verbatim>\<open>apply_qaf\<close>; \<^verbatim>\<open>prune_attention_heads\<close>; \<^verbatim>\<open>fuse_bn_recursively\<close>;
  \<^verbatim>\<open>verify_quantized_attention\<close>; \<^verbatim>\<open>optimize_for_mobile\<close> and \<^verbatim>\<open>save\<close>; three calls of
  \<^verbatim>\<open>benchmark\<close>.
\<close>

definition vision_transformer_notebook :: "step list" where
  "vision_transformer_notebook =
     [LoadPretrained, PrepareDataset, FineTuneMixedPrecision, ApplyQAF,
      PruneAttentionHeads, FuseBN, VerifyQuantizedAttention,
      OptimizeForMobile, SaveOptimized, Benchmark, Benchmark, Benchmark]"

text \<open>
  The place of a step in the pipeline: loading, fine-tuning, quantization, changes to the
  layers, export or optimization for the runtime, benchmarking.
\<close>

fun phase :: "step \<Rightarrow> nat" where
  "phase LoadPretrained = 0"
| "phase PrepareDataset = 1"
| "phase FineTuneMixedPrecision = 1"
| "phase ApplyPTQ = 2"
| "phase ApplyQAF = 2"
| "phase WrapQuantizedAttention = 3"
| "phase WrapCachedQuantizedAttention = 3"
| "phase PruneAttentionHeads = 3"
| "phase FuseBN = 3"
| "phase VerifyQuantizedAttention = 3"
| "phase ExportToOnnx = 4"
| "phase OnnxInference = 4"
| "phase OptimizeForMobile = 4"
| "phase SaveOptimized = 4"
| "phase Benchmark = 5"

text \<open>
  Running a notebook from top to bottom: a step runs on the state the step before it left,
  and an error ends the run. The result is the steps that completed and the final state or
  the error.
\<close>

fun run_steps ::
  "(step \<Rightarrow> 's \<Rightarrow> error + 's) \<Rightarrow> step list \<Rightarrow> 's \<Rightarrow> step list \<times> (error + 's)" where
  "run_steps exec [] s = ([], Inr s)"
| "run_steps exec (c # cs) s =
     (case exec c s of
        Inl e \<Rightarrow> ([], Inl e)
      | Inr s' \<Rightarrow> (c # fst (run_steps exec cs s'), snd (run_steps exec cs s')))"

text \<open>An execution that counts the steps and fails at \<^verbatim>\<open>export_to_onnx\<close>.\<close>

definition failing_export :: "step \<Rightarrow> nat \<Rightarrow> error + nat" where
  "failing_export c n = (if c = ExportToOnnx then Inl RuntimeError else Inr (Suc n))"

section \<open>The other functions of the notebooks\<close>

text \<open>
  The functions below only pass objects from one call of a library to the next. Their calls
  go through one interface: the mode of the surrounding \<^verbatim>\<open>with\<close> block, the name of what is
  called, the arguments, and the library's state \<open>'s\<close>; the answer is a Python value and the
  new state, or an error. A Python value is an opaque object of a library, a number, a
  string, a list or \<^verbatim>\<open>None\<close>.
\<close>

datatype ('o, 'f) pyval =
  Obj 'o | Num "'f number" | Str string | PyList "('o, 'f) pyval list" | PyNone

type_synonym ('s, 'o, 'f) library =
  "mode \<Rightarrow> string \<Rightarrow> ('o, 'f) pyval list \<Rightarrow> 's \<Rightarrow> error + (('o, 'f) pyval \<times> 's)"

type_synonym ('s, 'o, 'f) callable = "mode \<Rightarrow> 's \<Rightarrow> ('o, 'f) pyval \<Rightarrow> error + (('o, 'f) pyval \<times> 's)"

text \<open>\<^verbatim>\<open>xs[0]\<close>, and reading a value as a number.\<close>

definition index0 :: "('o, 'f) pyval \<Rightarrow> error + ('o, 'f) pyval" where
  "index0 v = (case v of PyList (x # xs) \<Rightarrow> Inr x | PyList [] \<Rightarrow> Inl IndexError | _ \<Rightarrow> Inl TypeError)"

definition num_of :: "('o, 'f) pyval \<Rightarrow> error + 'f number" where
  "num_of v = (case v of Num x \<Rightarrow> Inr x | _ \<Rightarrow> Inl TypeError)"

text \<open>A model of a library as a callable: \<^verbatim>\<open>model(x)\<close>.\<close>

definition call_model :: "('s, 'o, 'f) library \<Rightarrow> ('o, 'f) pyval \<Rightarrow> ('s, 'o, 'f) callable" where
  "call_model lib model md s x = lib md ''__call__'' [model, x] s"

text \<open>\<^verbatim>\<open>for _ in range(n): _ = model(x)\<close>\<close>

fun call_repeatedly ::
  "('s, 'o, 'f) callable \<Rightarrow> mode \<Rightarrow> nat \<Rightarrow> 's \<Rightarrow> ('o, 'f) pyval \<Rightarrow> error + 's" where
  "call_repeatedly model md 0 s x = Inr s"
| "call_repeatedly model md (Suc n) s x =
     ebind (model md s x) (\<lambda>(out, s). call_repeatedly model md n s x)"

subsection \<open>Language-model notebook\<close>

definition tokenize_function ::
  "('s, 'o, 'f) library \<Rightarrow> 's \<Rightarrow> (string \<rightharpoonup> ('o, 'f) pyval) \<Rightarrow> error + (('o, 'f) pyval \<times> 's)" where
  "tokenize_function lib s examples =
     ebind (case examples ''text'' of None \<Rightarrow> Inl KeyError | Some t \<Rightarrow> Inr t) (\<lambda>text.
       lib Default ''tokenizer(truncation=True, padding=max_length, max_length=512)'' [text] s)"

definition QuantizedAttention_forward ::
  "'a attention \<Rightarrow> 'a tensor \<Rightarrow> error + ('a tensor \<times> 'a tensor \<times> 'a tensor)" where
  "QuantizedAttention_forward self hidden_states =
     ebind (query self hidden_states) (\<lambda>query_layer.
     ebind (key self hidden_states) (\<lambda>key_layer.
     ebind (value' self hidden_states) (\<lambda>value_layer.
       Inr (query_layer, key_layer, value_layer))))"

definition dynamic_quantized_inference ::
  "('s, 'o, 'f) library \<Rightarrow> 's \<Rightarrow> ('o, 'f) pyval \<Rightarrow> ('o, 'f) pyval \<Rightarrow> error + (('o, 'f) pyval \<times> 's)" where
  "dynamic_quantized_inference lib s model input_ids =
     ebind (lib Default ''torch.quantization.quantize_dynamic'' [model] s) (\<lambda>(quantized_model, s).
       call_model lib quantized_model NoGrad s input_ids)"

definition export_to_onnx ::
  "('s, 'o, 'f) library \<Rightarrow> 's \<Rightarrow> ('o, 'f) pyval \<Rightarrow> ('o, 'f) pyval \<Rightarrow> error + (('o, 'f) pyval \<times> 's)" where
  "export_to_onnx lib s model input_shape =
     ebind (lib Default ''torch.randint'' [Num (PyInt 0), Num (PyInt 1000), input_shape] s) (\<lambda>(dummy_input, s).
     ebind (lib Default ''torch.onnx.export'' [model, dummy_input, Str ''quantized_gpt2.onnx''] s)
       (\<lambda>(none, s). Inr (PyNone, s)))"

definition onnx_inference ::
  "('s, 'o, 'f) library \<Rightarrow> 's \<Rightarrow> string \<Rightarrow> ('o, 'f) pyval \<Rightarrow> error + (('o, 'f) pyval \<times> 's)" where
  "onnx_inference lib s onnx_path input_ids =
     ebind (lib Default ''ort.InferenceSession'' [Str onnx_path] s) (\<lambda>(session, s).
     ebind (lib Default ''get_inputs'' [session] s) (\<lambda>(inputs, s).
     ebind (index0 inputs) (\<lambda>input0.
     ebind (lib Default ''name'' [input0] s) (\<lambda>(input_name, s).
     ebind (lib Default ''get_outputs'' [session] s) (\<lambda>(outputs, s).
     ebind (index0 outputs) (\<lambda>output0.
     ebind (lib Default ''name'' [output0] s) (\<lambda>(output_name, s).
     ebind (lib Default ''numpy'' [input_ids] s) (\<lambda>(array, s).
     ebind (lib Default ''run'' [session, PyList [output_name], input_name, array] s)
       (\<lambda>(results, s).
     ebind (index0 results) (\<lambda>result. Inr (result, s)))))))))))"

text \<open>
  \<^verbatim>\<open>benchmark\<close> of the language-model notebook. The notebook passes models of the library and
  a \<^verbatim>\<open>lambda\<close> around \<^verbatim>\<open>onnx_inference\<close>, so the model is any callable.
\<close>

definition benchmark_lm ::
  "'f float_arith \<Rightarrow> ('s, 'o, 'f) library \<Rightarrow> ('s, 'o, 'f) callable \<Rightarrow> 's \<Rightarrow> ('o, 'f) pyval \<Rightarrow>
     int \<Rightarrow> error + ('f \<times> 's)" where
  "benchmark_lm ar lib model s input_ids runs =
     ebind (lib Default ''time.time'' [] s) (\<lambda>(start_time, s).
     ebind (call_repeatedly model NoGrad (nat runs) s input_ids) (\<lambda>s.
     ebind (lib Default ''time.time'' [] s) (\<lambda>(end_time, s).
     ebind (num_of end_time) (\<lambda>e.
     ebind (num_of start_time) (\<lambda>b.
     ebind (py_div ar (py_sub ar e b) (PyInt runs)) (\<lambda>r. Inr (r, s)))))))"

subsection \<open>Vision notebook\<close>

definition QuantizedViT_init ::
  "('s, 'o, 'f) library \<Rightarrow> 's \<Rightarrow> ('o, 'f) pyval \<Rightarrow> error + ((('o, 'f) pyval \<times> ('o, 'f) pyval \<times> ('o, 'f) pyval) \<times> 's)" where
  "QuantizedViT_init lib s model =
     ebind (lib Default ''torch.quantization.QuantStub'' [] s) (\<lambda>(quant, s).
     ebind (lib Default ''torch.quantization.DeQuantStub'' [] s) (\<lambda>(dequant, s).
       Inr ((quant, model, dequant), s)))"

definition QuantizedViT_forward ::
  "('s, 'o, 'f) library \<Rightarrow> 's \<Rightarrow> ('o, 'f) pyval \<times> ('o, 'f) pyval \<times> ('o, 'f) pyval \<Rightarrow> ('o, 'f) pyval \<Rightarrow>
     error + (('o, 'f) pyval \<times> 's)" where
  "QuantizedViT_forward lib s self x =
     (case self of (quant, model, dequant) \<Rightarrow>
        ebind (call_model lib quant Default s x) (\<lambda>(x, s).
        ebind (call_model lib model Default s x) (\<lambda>(x, s).
          call_model lib dequant Default s x)))"

text \<open>
  The epochs of \<^verbatim>\<open>apply_qaf\<close> from epoch number \<open>epoch\<close> on, \<open>k\<close> of them, and what was printed
  so far: the training and validation loss and accuracy of every epoch.
\<close>

fun qaf_epochs ::
  "'f float_arith \<Rightarrow> ('s, 't, 'f) torch \<Rightarrow> ('s, 'o, 'f) library \<Rightarrow> 's \<Rightarrow> ('o, 'f) pyval \<Rightarrow>
     ('t \<times> 't) list \<Rightarrow> ('t \<times> 't) list \<Rightarrow> nat \<Rightarrow> nat \<Rightarrow> (('f \<times> 'f) \<times> ('f \<times> 'f)) list \<Rightarrow>
     error + ((('f \<times> 'f) \<times> ('f \<times> 'f)) list \<times> 's)" where
  "qaf_epochs ar fw lib s model_qat train_loader val_loader epoch 0 printed = Inr (printed, s)"
| "qaf_epochs ar fw lib s model_qat train_loader val_loader epoch (Suc k) printed =
     ebind (lib Default ''apply(torch.quantization.disable_observer)'' [model_qat] s) (\<lambda>(none, s).
     ebind (lib Default ''apply(torch.quantization.enable_fake_quant)'' [model_qat] s) (\<lambda>(none, s).
     ebind (if 0 < epoch
            then lib Default ''apply(torch.quantization.enable_observer)'' [model_qat] s
            else Inr (PyNone, s)) (\<lambda>(none, s).
     ebind (train_epoch ar fw s train_loader) (\<lambda>(train, s).
     ebind (validate ar fw s val_loader) (\<lambda>(val, s).
       qaf_epochs ar fw lib s model_qat train_loader val_loader (Suc epoch) k
         (printed @ [(train, val)]))))))"

definition apply_qaf ::
  "'f float_arith \<Rightarrow> ('s, 't, 'f) torch \<Rightarrow> ('s, 'o, 'f) library \<Rightarrow> 's \<Rightarrow> ('o, 'f) pyval \<Rightarrow>
     ('t \<times> 't) list \<Rightarrow> ('t \<times> 't) list \<Rightarrow> int \<Rightarrow>
     error + ((('o, 'f) pyval \<times> (('f \<times> 'f) \<times> ('f \<times> 'f)) list) \<times> 's)" where
  "apply_qaf ar fw lib s model train_loader val_loader epochs =
     ebind (lib Default ''torch.quantization.get_default_qat_qconfig'' [Str ''fbgemm''] s)
       (\<lambda>(qconfig, s).
     ebind (lib Default ''setattr(qconfig)'' [model, qconfig] s) (\<lambda>(none, s).
     ebind (lib Default ''torch.quantization.prepare_qat'' [model] s) (\<lambda>(model_qat, s).
     ebind (lib Default ''setattr(patch_embed)'' [model_qat, model] s) (\<lambda>(none, s).
     ebind (lib Default ''setattr(head)'' [model_qat, model] s) (\<lambda>(none, s).
     ebind (lib Default ''optim.AdamW'' [model_qat] s) (\<lambda>(optimizer, s).
     ebind (GradScaler fw s) (\<lambda>s.
     ebind (qaf_epochs ar fw lib s model_qat train_loader val_loader 0 (nat epochs) [])
       (\<lambda>(printed, s).
     ebind (lib Default ''eval'' [model_qat] s) (\<lambda>(model_qat, s).
     ebind (lib Default ''torch.quantization.convert'' [model_qat] s) (\<lambda>(model_quantized, s).
       Inr ((model_quantized, printed), s)))))))))))"

text \<open>
  \<^verbatim>\<open>verify_quantized_attention\<close>: \<^verbatim>\<open>model.modules()\<close> is a list of modules, each with the
  answer to \<^verbatim>\<open>isinstance(module, Attention)\<close>. The result is what is printed.
\<close>

fun verify_quantized_attention ::
  "('s, 'o, 'f) library \<Rightarrow> 's \<Rightarrow> (bool \<times> ('o, 'f) pyval) list \<Rightarrow> error + (('o, 'f) pyval list \<times> 's)" where
  "verify_quantized_attention lib s [] = Inr ([], s)"
| "verify_quantized_attention lib s ((is_attention, m) # modules) =
     (if is_attention then
        ebind (lib Default ''format'' [m] s) (\<lambda>(text, s).
        ebind (lib Default ''qkv.weight'' [m] s) (\<lambda>(qkv_weight, s).
        ebind (lib Default ''torch.quantization.Quantized'' [] s) (\<lambda>(quantized, s).
        ebind (lib Default ''isinstance'' [qkv_weight, quantized] s) (\<lambda>(qkv_quantized, s).
        ebind (lib Default ''proj.weight'' [m] s) (\<lambda>(proj_weight, s).
        ebind (lib Default ''torch.quantization.Quantized'' [] s) (\<lambda>(quantized, s).
        ebind (lib Default ''isinstance'' [proj_weight, quantized] s) (\<lambda>(proj_quantized, s).
        ebind (verify_quantized_attention lib s modules) (\<lambda>(printed, s).
          Inr ([text, qkv_quantized, proj_quantized] @ printed, s)))))))))
      else verify_quantized_attention lib s modules)"

definition optimize_for_mobile ::
  "('s, 'o, 'f) library \<Rightarrow> 's \<Rightarrow> ('o, 'f) pyval \<Rightarrow> error + (('o, 'f) pyval \<times> 's)" where
  "optimize_for_mobile lib s model =
     ebind (lib Default ''eval'' [model] s) (\<lambda>(none, s).
     ebind (lib Default ''torch.rand'' [PyList [Num (PyInt 1), Num (PyInt 3), Num (PyInt 224), Num (PyInt 224)]] s) (\<lambda>(t, s).
     ebind (lib Default ''to(device)'' [t] s) (\<lambda>(example_input, s).
     ebind (lib Default ''torch.jit.trace'' [model, example_input] s) (\<lambda>(traced_model, s).
       lib Default ''torch.jit.optimize_for_mobile'' [traced_model] s))))"

text \<open>\<^verbatim>\<open>benchmark\<close> of the vision notebook.\<close>

definition benchmark_vit ::
  "'f float_arith \<Rightarrow> ('s, 'o, 'f) library \<Rightarrow> 's \<Rightarrow> ('o, 'f) pyval \<Rightarrow> ('o, 'f) pyval \<Rightarrow> int \<Rightarrow>
     error + ('f \<times> 's)" where
  "benchmark_vit ar lib s model input_shape num_runs =
     ebind (lib Default ''eval'' [model] s) (\<lambda>(none, s).
     ebind (lib Default ''torch.rand'' [input_shape] s) (\<lambda>(t, s).
     ebind (lib Default ''to(device)'' [t] s) (\<lambda>(input_tensor, s).
     ebind (lib Default ''torch.cuda.Event(enable_timing=True)'' [] s) (\<lambda>(start_time, s).
     ebind (lib Default ''torch.cuda.Event(enable_timing=True)'' [] s) (\<lambda>(end_time, s).
     ebind (call_repeatedly (call_model lib model) NoGrad 10 s input_tensor) (\<lambda>s.
     ebind (lib NoGrad ''record'' [start_time] s) (\<lambda>(none, s).
     ebind (call_repeatedly (call_model lib model) NoGrad (nat num_runs) s input_tensor) (\<lambda>s.
     ebind (lib NoGrad ''record'' [end_time] s) (\<lambda>(none, s).
     ebind (lib Default ''torch.cuda.synchronize'' [] s) (\<lambda>(none, s).
     ebind (lib Default ''elapsed_time'' [start_time, end_time] s) (\<lambda>(elapsed, s).
     ebind (num_of elapsed) (\<lambda>ms.
     ebind (py_div ar ms (PyInt num_runs)) (\<lambda>elapsed_time.
       Inr (elapsed_time, s))))))))))))))"

subsection \<open>Libraries whose calls raise more often\<close>

text \<open>
  \<open>raises_or_same E r' r\<close>: the result \<open>r'\<close> is the result \<open>r\<close>, or an error of \<open>E\<close>. A library
  (or a layer, or a callable) relates in this way to another when each of its calls gives
  what the other's call gives, or raises an error of \<open>E\<close>.
\<close>

definition raises_or_same :: "error set \<Rightarrow> error + 'a \<Rightarrow> error + 'a \<Rightarrow> bool" where
  "raises_or_same E r' r \<longleftrightarrow> r' = r \<or> (\<exists>e\<in>E. r' = Inl e)"

definition library_raising :: "error set \<Rightarrow> ('s, 'o, 'f) library \<Rightarrow> ('s, 'o, 'f) library \<Rightarrow> bool" where
  "library_raising E lib' lib \<longleftrightarrow>
     (\<forall>md name args s. raises_or_same E (lib' md name args s) (lib md name args s))"

definition callable_raising :: "error set \<Rightarrow> ('s, 'o, 'f) callable \<Rightarrow> ('s, 'o, 'f) callable \<Rightarrow> bool" where
  "callable_raising E model' model \<longleftrightarrow>
     (\<forall>md s x. raises_or_same E (model' md s x) (model md s x))"

definition layer_raising :: "error set \<Rightarrow> 'a layer \<Rightarrow> 'a layer \<Rightarrow> bool" where
  "layer_raising E f' f \<longleftrightarrow> (\<forall>x. raises_or_same E (f' x) (f x))"

definition attention_raising ::
  "error set \<Rightarrow> ('a, 'z) attention_scheme \<Rightarrow> ('a, 'z) attention_scheme \<Rightarrow> bool" where
  "attention_raising E a' a \<longleftrightarrow>
     layer_raising E (query a') (query a) \<and> layer_raising E (key a') (key a)
     \<and> layer_raising E (value' a') (value' a)"

definition torch_raising :: "error set \<Rightarrow> ('s, 't, 'f) torch \<Rightarrow> ('s, 't, 'f) torch \<Rightarrow> bool" where
  "torch_raising E fw' fw \<longleftrightarrow>
     (\<forall>s. raises_or_same E (GradScaler fw' s) (GradScaler fw s))
   \<and> (\<forall>s. raises_or_same E (model_train fw' s) (model_train fw s))
   \<and> (\<forall>s. raises_or_same E (model_eval fw' s) (model_eval fw s))
   \<and> (\<forall>md t. raises_or_same E (to_device fw' md t) (to_device fw md t))
   \<and> (\<forall>md t. raises_or_same E (clone fw' md t) (clone fw md t))
   \<and> (\<forall>s. raises_or_same E (zero_grad fw' s) (zero_grad fw s))
   \<and> (\<forall>md s t. raises_or_same E (model_call fw' md s t) (model_call fw md s t))
   \<and> (\<forall>md s t u. raises_or_same E (model_call_labels fw' md s t u) (model_call_labels fw md s t u))
   \<and> (\<forall>md t u. raises_or_same E (criterion fw' md t u) (criterion fw md t u))
   \<and> (\<forall>s t. raises_or_same E (scale fw' s t) (scale fw s t))
   \<and> (\<forall>s t. raises_or_same E (backward fw' s t) (backward fw s t))
   \<and> (\<forall>s. raises_or_same E (scaler_step fw' s) (scaler_step fw s))
   \<and> (\<forall>s. raises_or_same E (scaler_update fw' s) (scaler_update fw s))
   \<and> (\<forall>t. raises_or_same E (item fw' t) (item fw t))
   \<and> (\<forall>t. raises_or_same E (max1 fw' t) (max1 fw t))
   \<and> (\<forall>t. raises_or_same E (size0 fw' t) (size0 fw t))
   \<and> (\<forall>t u. raises_or_same E (eq_sum_item fw' t u) (eq_sum_item fw t u))"

definition quantization_raising ::
  "error set \<Rightarrow> ('h, 'q, 't) quantization \<Rightarrow> ('h, 'q, 't) quantization \<Rightarrow> bool" where
  "quantization_raising E fw' fw \<longleftrightarrow>
     (\<forall>b. raises_or_same E (get_default_qconfig fw' b) (get_default_qconfig fw b))
   \<and> (\<forall>h m. raises_or_same E (prepare fw' h m) (prepare fw h m))
   \<and> (\<forall>h m. raises_or_same E (convert fw' h m) (convert fw h m))
   \<and> (\<forall>t. raises_or_same E (input_to_device fw' t) (input_to_device fw t))
   \<and> (\<forall>md h m t. raises_or_same E (model_forward fw' md h m t) (model_forward fw md h m t))
   \<and> (\<forall>h r. raises_or_same E (half fw' h r) (half fw h r))"

text \<open>
  Small instances: a library that answers every call with \<^verbatim>\<open>None\<close> and counts the calls, and
  variants of it and of the frameworks above in which one call raises.
\<close>

definition toy_library :: "(nat, unit, real) library" where
  "toy_library md name args s = Inr (PyNone, Suc s)"

definition toy_library_failing :: "(nat, unit, real) library" where
  "toy_library_failing md name args s =
     (if name = ''torch.onnx.export'' then Inl (FrameworkError ''call failed'')
      else toy_library md name args s)"

definition toy_torch_failing :: "(nat, int list, real) torch" where
  "toy_torch_failing = toy_torch\<lparr>backward := (\<lambda>s t. Inl (FrameworkError ''call failed''))\<rparr>"

definition toy_quantization_failing ::
  "(ref \<Rightarrow> int submodule, string, int list) quantization" where
  "toy_quantization_failing =
     toy_quantization\<lparr>convert := (\<lambda>h m. Inl (FrameworkError ''call failed''))\<rparr>"

definition example_attention_failing :: "int cached_attention" where
  "example_attention_failing =
     example_attention\<lparr>key := (\<lambda>x. Inl (FrameworkError ''call failed''))\<rparr>"

section \<open>Properties of the key-value cache\<close>

lemma last_position_seq:
  "last_position h = Inr l \<Longrightarrow>
     3 \<le> length (shape l) \<and> seq_len l = min 1 (seq_len h)"
  by (auto simp: last_position_def seq_len_def Let_def split: list.splits)

lemma cat_seq:
  "torch_cat_dim1 x y = Inr z \<Longrightarrow> 2 \<le> length (shape y) \<Longrightarrow> seq_len z = seq_len x + seq_len y"
  by (auto simp: torch_cat_dim1_def seq_len_def Let_def split: list.splits if_splits)

lemma cat_seq_le:
  "torch_cat_dim1 x y = Inr z \<Longrightarrow> seq_len x \<le> seq_len z"
  by (auto simp: torch_cat_dim1_def seq_len_def Let_def split: list.splits if_splits)

lemma linear_seq:
  assumes "linear_layer f" "f x = Inr y" "3 \<le> length (shape x)"
  shows "seq_len y = seq_len x \<and> 3 \<le> length (shape y)"
proof -
  from assms(1,2) have len: "length (shape y) = length (shape x)"
    and bl: "butlast (shape y) = butlast (shape x)"
    by (auto simp: linear_layer_def)
  from assms(3) obtain b s d rest where sx: "shape x = b # s # d # rest"
    by (auto simp: numeral_3_eq_3 Suc_le_length_iff)
  with len obtain b' s' d' rest' where sy: "shape y = b' # s' # d' # rest'"
    by (auto simp: length_Suc_conv)
  from bl sx sy have "s' = s" by simp
  with sx sy len show ?thesis by (simp add: seq_len_def)
qed

lemma scale_layer_linear: "linear_layer (scale_layer c)"
  by (simp add: linear_layer_def scale_layer_def)

lemma forward_fields:
  "forward self h = (r, self') \<Longrightarrow>
     query self' = query self \<and> key self' = key self \<and> value' self' = value' self"
  by (auto simp: forward_def split: sum.splits option.splits)

lemma forward_never_shrinks:
  "forward self h = (r, self') \<Longrightarrow> cached_key self = Some ck \<Longrightarrow> cached_value self = Some cv \<Longrightarrow>
     \<exists>ck' cv'. cached_key self' = Some ck' \<and> cached_value self' = Some cv'
        \<and> seq_len ck \<le> seq_len ck' \<and> seq_len cv \<le> seq_len cv'"
  by (auto simp: forward_def cat_seq_le split: sum.splits option.splits)

lemma forward_grows:
  assumes lk: "linear_layer (key self)" and lv: "linear_layer (value' self)"
    and ck: "cached_key self = Some ck" and cv: "cached_value self = Some cv"
    and f: "forward self h = (Inr out, self')"
  shows "\<exists>ck' cv'. cached_key self' = Some ck' \<and> cached_value self' = Some cv'
          \<and> seq_len ck' = seq_len ck + min 1 (seq_len h)
          \<and> seq_len cv' = seq_len cv + min 1 (seq_len h)"
proof -
  from f ck cv obtain l k v ck' cv' where
    l: "last_position h = Inr l" and k: "key self l = Inr k" and v: "value' self l = Inr v"
    and c1: "torch_cat_dim1 ck k = Inr ck'" and c2: "torch_cat_dim1 cv v = Inr cv'"
    and s: "self' = self\<lparr>cached_key := Some ck', cached_value := Some cv'\<rparr>"
    by (auto simp: forward_def split: sum.splits option.splits)
  from last_position_seq[OF l] have l3: "3 \<le> length (shape l)"
    and ls: "seq_len l = min 1 (seq_len h)" by auto
  from linear_seq[OF lk k l3] linear_seq[OF lv v l3] ls
  have "seq_len k = min 1 (seq_len h)" "2 \<le> length (shape k)"
       "seq_len v = min 1 (seq_len h)" "2 \<le> length (shape v)"
    by auto
  with cat_seq[OF c1] cat_seq[OF c2] s show ?thesis by simp
qed

lemma forward_calls_grow:
  "linear_layer (key self) \<Longrightarrow> linear_layer (value' self) \<Longrightarrow>
   cached_key self = Some ck \<Longrightarrow> cached_value self = Some cv \<Longrightarrow>
   \<forall>h\<in>set hs. 0 < seq_len h \<Longrightarrow> forward_calls self hs = (Inr outs, self') \<Longrightarrow>
   \<exists>ck' cv'. cached_key self' = Some ck' \<and> cached_value self' = Some cv'
          \<and> seq_len ck' = seq_len ck + length hs \<and> seq_len cv' = seq_len cv + length hs"
proof (induction hs arbitrary: self ck cv outs)
  case Nil
  then show ?case by simp
next
  case (Cons h hs)
  from Cons.prems(6) obtain out s1 outs' where
    f: "forward self h = (Inr out, s1)" and r: "forward_calls s1 hs = (Inr outs', self')"
    by (auto split: prod.splits sum.splits)
  from forward_grows[OF Cons.prems(1-4) f] obtain ck1 cv1 where
    c: "cached_key s1 = Some ck1" "cached_value s1 = Some cv1"
       "seq_len ck1 = seq_len ck + min 1 (seq_len h)"
       "seq_len cv1 = seq_len cv + min 1 (seq_len h)"
    by blast
  from forward_fields[OF f] Cons.prems(1,2)
  have l: "linear_layer (key s1)" "linear_layer (value' s1)" by simp_all
  from Cons.prems(5) have pos: "0 < seq_len h" "\<forall>h\<in>set hs. 0 < seq_len h" by simp_all
  from Cons.IH[OF l c(1,2) pos(2) r] c(3,4) pos(1) show ?case by auto
qed



text \<open>
  Claim C8, as stated, fails in three ways. A call that raises has been called and can leave
  both caches \<open>None\<close>: here the key layer raises in the first call. A call whose input has an
  empty sequence dimension returns and leaves the cached sequence length as it was, since
  \<^verbatim>\<open>[:, -1:, :]\<close> of an empty dimension is empty. And the class appends whatever its key and
  value layers return for the last position: with layers that return two positions for one,
  a call on an input of one position lengthens the caches by two.
\<close>

theorem cache_growth_counterexample:
  "forward example_attention_failing \<lparr>shape = [1, 2, 1], elems = [1, 2]\<rparr> =
     (Inl (FrameworkError ''call failed''), example_attention_failing)
   \<and> cached_key example_attention_failing = None
   \<and> cached_value example_attention_failing = None
   \<and> forward (example_attention\<lparr>cached_key := Some \<lparr>shape = [1, 2, 1], elems = [2, 4]\<rparr>,
                              cached_value := Some \<lparr>shape = [1, 2, 1], elems = [3, 6]\<rparr>\<rparr>)
      \<lparr>shape = [1, 0, 1], elems = []\<rparr> =
     (Inr (\<lparr>shape = [1, 0, 1], elems = []\<rparr>, \<lparr>shape = [1, 2, 1], elems = [2, 4]\<rparr>,
           \<lparr>shape = [1, 2, 1], elems = [3, 6]\<rparr>),
      example_attention\<lparr>cached_key := Some \<lparr>shape = [1, 2, 1], elems = [2, 4]\<rparr>,
                        cached_value := Some \<lparr>shape = [1, 2, 1], elems = [3, 6]\<rparr>\<rparr>)
   \<and> seq_len \<lparr>shape = [1, 2, 1], elems = [2, 4::int]\<rparr> \<noteq>
       seq_len \<lparr>shape = [1, 2, 1], elems = [2, 4::int]\<rparr> + 1
   \<and> forward (example_attention_twice\<lparr>cached_key := Some \<lparr>shape = [1, 2, 1], elems = [2, 4]\<rparr>,
                              cached_value := Some \<lparr>shape = [1, 2, 1], elems = [3, 6]\<rparr>\<rparr>)
      \<lparr>shape = [1, 1, 1], elems = [7]\<rparr> =
     (Inr (\<lparr>shape = [1, 1, 1], elems = [7]\<rparr>, \<lparr>shape = [1, 4, 1], elems = [2, 4, 7, 7]\<rparr>,
           \<lparr>shape = [1, 4, 1], elems = [3, 6, 7, 7]\<rparr>),
      example_attention_twice\<lparr>cached_key := Some \<lparr>shape = [1, 4, 1], elems = [2, 4, 7, 7]\<rparr>,
                        cached_value := Some \<lparr>shape = [1, 4, 1], elems = [3, 6, 7, 7]\<rparr>\<rparr>)
   \<and> seq_len \<lparr>shape = [1, 4, 1], elems = [2, 4, 7, 7::int]\<rparr> =
       seq_len \<lparr>shape = [1, 2, 1], elems = [2, 4::int]\<rparr> + 2"
  by (simp add: forward_def example_attention_def example_attention_failing_def
        example_attention_twice_def twice_layer_def scale_layer_def last_position_def
        torch_cat_dim1_def seq_len_def)

text \<open>
  Claim C8, amended. Once a call of \<open>forward\<close> has returned, both caches are set, and no call,
  returning or raising, clears or shortens them. When the key and value layers are linear
  layers (their output has the dimensions of their input but the last), a later call that
  returns lengthens both caches by the number of positions its slice keeps: by exactly one
  for an input with at least one sequence position, by none for an empty one. A sequence of
  such calls on non-empty inputs lengthens the caches by the number of calls, so the cache
  has no bound.
\<close>

theorem cache_never_cleared_grows_per_position:
  "(forward self h = (Inr out, self') \<longrightarrow> cached_key self' \<noteq> None \<and> cached_value self' \<noteq> None)
   \<and> (forward self h = (r, self') \<and> cached_key self = Some ck \<and> cached_value self = Some cv \<longrightarrow>
        (\<exists>ck' cv'. cached_key self' = Some ck' \<and> cached_value self' = Some cv'
            \<and> seq_len ck \<le> seq_len ck' \<and> seq_len cv \<le> seq_len cv'))
   \<and> (linear_layer (key self) \<and> linear_layer (value' self)
        \<and> cached_key self = Some ck \<and> cached_value self = Some cv
        \<and> forward self h = (Inr out, self') \<longrightarrow>
        (\<exists>ck' cv'. cached_key self' = Some ck' \<and> cached_value self' = Some cv'
            \<and> seq_len ck' = seq_len ck + min 1 (seq_len h)
            \<and> seq_len cv' = seq_len cv + min 1 (seq_len h)))
   \<and> (linear_layer (key self) \<and> linear_layer (value' self)
        \<and> cached_key self = Some ck \<and> cached_value self = Some cv
        \<and> (\<forall>x\<in>set hs. 0 < seq_len x) \<and> forward_calls self hs = (Inr outs, self'') \<longrightarrow>
        (\<exists>ck' cv'. cached_key self'' = Some ck' \<and> cached_value self'' = Some cv'
            \<and> seq_len ck' = seq_len ck + length hs
            \<and> seq_len cv' = seq_len cv + length hs))"
proof (intro conjI impI)
  assume "forward self h = (Inr out, self')"
  then show "cached_key self' \<noteq> None" "cached_value self' \<noteq> None"
    by (auto simp: forward_def split: sum.splits option.splits)
next
  assume "forward self h = (r, self') \<and> cached_key self = Some ck \<and> cached_value self = Some cv"
  then show "\<exists>ck' cv'. cached_key self' = Some ck' \<and> cached_value self' = Some cv'
            \<and> seq_len ck \<le> seq_len ck' \<and> seq_len cv \<le> seq_len cv'"
    using forward_never_shrinks by blast
next
  assume "linear_layer (key self) \<and> linear_layer (value' self)
        \<and> cached_key self = Some ck \<and> cached_value self = Some cv
        \<and> forward self h = (Inr out, self')"
  then show "\<exists>ck' cv'. cached_key self' = Some ck' \<and> cached_value self' = Some cv'
            \<and> seq_len ck' = seq_len ck + min 1 (seq_len h)
            \<and> seq_len cv' = seq_len cv + min 1 (seq_len h)"
    using forward_grows by blast
next
  assume "linear_layer (key self) \<and> linear_layer (value' self)
        \<and> cached_key self = Some ck \<and> cached_value self = Some cv
        \<and> (\<forall>x\<in>set hs. 0 < seq_len x) \<and> forward_calls self hs = (Inr outs, self'')"
  then show "\<exists>ck' cv'. cached_key self'' = Some ck' \<and> cached_value self'' = Some cv'
            \<and> seq_len ck' = seq_len ck + length hs
            \<and> seq_len cv' = seq_len cv + length hs"
    using forward_calls_grow [of self ck cv hs outs self''] by blast
qed

theorem cache_never_cleared_grows_per_position_witness:
  "forward_calls
      (example_attention\<lparr>cached_key := Some \<lparr>shape = [1, 2, 1], elems = [2, 4]\<rparr>,
                         cached_value := Some \<lparr>shape = [1, 2, 1], elems = [3, 6]\<rparr>\<rparr>)
      [\<lparr>shape = [1, 3, 1], elems = [1, 2, 5]\<rparr>, \<lparr>shape = [1, 1, 1], elems = [7]\<rparr>] =
     (Inr [(\<lparr>shape = [1, 3, 1], elems = [1, 2, 5]\<rparr>, \<lparr>shape = [1, 3, 1], elems = [2, 4, 10]\<rparr>,
            \<lparr>shape = [1, 3, 1], elems = [3, 6, 15]\<rparr>),
           (\<lparr>shape = [1, 1, 1], elems = [7]\<rparr>, \<lparr>shape = [1, 4, 1], elems = [2, 4, 10, 14]\<rparr>,
            \<lparr>shape = [1, 4, 1], elems = [3, 6, 15, 21]\<rparr>)],
      example_attention\<lparr>cached_key := Some \<lparr>shape = [1, 4, 1], elems = [2, 4, 10, 14]\<rparr>,
                        cached_value := Some \<lparr>shape = [1, 4, 1], elems = [3, 6, 15, 21]\<rparr>\<rparr>)
   \<and> (\<exists>ck' cv'.
      cached_key (example_attention\<lparr>cached_key := Some \<lparr>shape = [1, 4, 1], elems = [2, 4, 10, 14]\<rparr>,
                        cached_value := Some \<lparr>shape = [1, 4, 1], elems = [3, 6, 15, 21]\<rparr>\<rparr>) = Some ck'
    \<and> cached_value (example_attention\<lparr>cached_key := Some \<lparr>shape = [1, 4, 1], elems = [2, 4, 10, 14]\<rparr>,
                        cached_value := Some \<lparr>shape = [1, 4, 1], elems = [3, 6, 15, 21]\<rparr>\<rparr>) = Some cv'
    \<and> seq_len ck' = seq_len \<lparr>shape = [1, 2, 1], elems = [2, 4::int]\<rparr> + 2
    \<and> seq_len cv' = seq_len \<lparr>shape = [1, 2, 1], elems = [3, 6::int]\<rparr> + 2)"
proof -
  have run: "forward_calls
      (example_attention\<lparr>cached_key := Some \<lparr>shape = [1, 2, 1], elems = [2, 4]\<rparr>,
                         cached_value := Some \<lparr>shape = [1, 2, 1], elems = [3, 6]\<rparr>\<rparr>)
      [\<lparr>shape = [1, 3, 1], elems = [1, 2, 5]\<rparr>, \<lparr>shape = [1, 1, 1], elems = [7]\<rparr>] =
     (Inr [(\<lparr>shape = [1, 3, 1], elems = [1, 2, 5]\<rparr>, \<lparr>shape = [1, 3, 1], elems = [2, 4, 10]\<rparr>,
            \<lparr>shape = [1, 3, 1], elems = [3, 6, 15]\<rparr>),
           (\<lparr>shape = [1, 1, 1], elems = [7]\<rparr>, \<lparr>shape = [1, 4, 1], elems = [2, 4, 10, 14]\<rparr>,
            \<lparr>shape = [1, 4, 1], elems = [3, 6, 15, 21]\<rparr>)],
      example_attention\<lparr>cached_key := Some \<lparr>shape = [1, 4, 1], elems = [2, 4, 10, 14]\<rparr>,
                        cached_value := Some \<lparr>shape = [1, 4, 1], elems = [3, 6, 15, 21]\<rparr>\<rparr>)"
    by (simp add: forward_def example_attention_def scale_layer_def last_position_def
          torch_cat_dim1_def)
  have lin: "linear_layer (key example_attention)" "linear_layer (value' example_attention)"
    by (simp_all add: example_attention_def scale_layer_linear)
  have pos: "\<forall>x\<in>set [\<lparr>shape = [1, 3, 1], elems = [1, 2, 5::int]\<rparr>, \<lparr>shape = [1, 1, 1], elems = [7]\<rparr>].
               0 < seq_len x"
    by (simp add: seq_len_def)
  have grown: "\<exists>ck' cv'.
      cached_key (example_attention\<lparr>cached_key := Some \<lparr>shape = [1, 4, 1], elems = [2, 4, 10, 14]\<rparr>,
                        cached_value := Some \<lparr>shape = [1, 4, 1], elems = [3, 6, 15, 21]\<rparr>\<rparr>) = Some ck'
    \<and> cached_value (example_attention\<lparr>cached_key := Some \<lparr>shape = [1, 4, 1], elems = [2, 4, 10, 14]\<rparr>,
                        cached_value := Some \<lparr>shape = [1, 4, 1], elems = [3, 6, 15, 21]\<rparr>\<rparr>) = Some cv'
    \<and> seq_len ck' = seq_len \<lparr>shape = [1, 2, 1], elems = [2, 4::int]\<rparr> + 2
    \<and> seq_len cv' = seq_len \<lparr>shape = [1, 2, 1], elems = [3, 6::int]\<rparr> + 2"
    using cache_never_cleared_grows_per_position
      [where self = "example_attention\<lparr>cached_key := Some \<lparr>shape = [1, 2, 1], elems = [2, 4]\<rparr>,
                         cached_value := Some \<lparr>shape = [1, 2, 1], elems = [3, 6]\<rparr>\<rparr>"
         and ck = "\<lparr>shape = [1, 2, 1], elems = [2, 4]\<rparr>"
         and cv = "\<lparr>shape = [1, 2, 1], elems = [3, 6]\<rparr>"
         and hs = "[\<lparr>shape = [1, 3, 1], elems = [1, 2, 5]\<rparr>, \<lparr>shape = [1, 1, 1], elems = [7]\<rparr>]",
         THEN conjunct2, THEN conjunct2, THEN conjunct2, rule_format, OF conjI, OF _ conjI,
         OF _ _ conjI, OF _ _ _ conjI, OF _ _ _ _ conjI]
      run lin pos
    by simp
  from run grown show ?thesis by (rule conjI)
qed

section \<open>Properties of layer fusion\<close>







































lemma bn_free_path_snoc:
  "bn_free_path h r (q @ [n]) \<Longrightarrow> bn_free_path h r q"
  by (induction q arbitrary: r) (auto split: option.splits)


lemma bn_free_path_last:
  "get_submodule h r (q @ [n]) = Some x \<Longrightarrow> bn_free_path h r (q @ [n]) \<Longrightarrow>
     \<not> isinstance h x ''BatchNorm2d''"
  by (induction q arbitrary: r) (auto split: option.splits if_splits)












section \<open>Properties of the training and validation loops\<close>





lemma py_div_count:
  "n \<noteq> 0 \<Longrightarrow> py_div ar a (PyInt (int n)) = Inr (py_quotient ar a (PyInt (int n)))"
  by (simp add: py_div_def)













section \<open>Properties of post-training quantization\<close>

lemma batch_inputs_logged: "batch_inputs (logged fw) = batch_inputs fw"
  by (simp add: fun_eq_iff batch_inputs_def logged_def)

lemma logged_fields:
  "get_default_qconfig (logged fw) = get_default_qconfig fw"
  "prepare (logged fw) (h, l) m =
     ebind (prepare fw h m) (\<lambda>(m', h'). Inr (m', (h', l @ [Prepare])))"
  "convert (logged fw) (h, l) m =
     ebind (convert fw h m) (\<lambda>(m', h'). Inr (m', (h', l @ [Convert])))"
  "model_forward (logged fw) md (h, l) m x =
     ebind (model_forward fw md h m x) (\<lambda>(y, h'). Inr (y, (h', l @ [ModelCall md x])))"
  "half (logged fw) (h, l) r =
     ebind (half fw h r) (\<lambda>(r', h'). Inr (r', (h', l @ [Half r])))"
  by (simp_all add: logged_def)

lemma calibrate_inputs:
  "calibrate fw h mp loader = Inr hc \<Longrightarrow> \<exists>xs. batches_inputs fw loader = Inr xs"
proof (induction loader arbitrary: h)
  case Nil
  then show ?case by simp
next
  case (Cons b loader)
  then show ?case
    by (fastforce simp: ebind_def split: sum.splits prod.splits)
qed

lemma calibrate_logged:
  "calibrate (logged fw) (h, l) mp loader =
     ebind (calibrate fw h mp loader) (\<lambda>h'.
     ebind (batches_inputs fw loader) (\<lambda>xs. Inr (h', l @ map (ModelCall NoGrad) xs)))"
proof (induction loader arbitrary: h l)
  case Nil
  then show ?case by (simp add: ebind_def)
next
  case (Cons b loader)
  show ?case
  proof (cases "batch_inputs fw b")
    case (Inl e)
    then show ?thesis by (simp add: ebind_def batch_inputs_logged)
  next
    case (Inr x)
    show ?thesis
    proof (cases "model_forward fw NoGrad h mp x")
      case (Inl e)
      with Inr show ?thesis by (simp add: ebind_def batch_inputs_logged logged_fields)
    next
      case fwd: (Inr yh)
      obtain y h1 where yh: "yh = (y, h1)" by (cases yh)
      show ?thesis
      proof (cases "calibrate fw h1 mp loader")
        case (Inl e)
        with Inr fwd yh show ?thesis
          by (simp add: ebind_def batch_inputs_logged logged_fields Cons.IH)
      next
        case c: (Inr hc)
        from calibrate_inputs [OF c] obtain xs where "batches_inputs fw loader = Inr xs" ..
        with c Inr fwd yh show ?thesis
          by (simp add: ebind_def batch_inputs_logged logged_fields Cons.IH)
      qed
    qed
  qed
qed

lemma calibrate_frame:
  "(\<forall>h m x y h'. model_forward fw NoGrad h m x = Inr (y, h') \<longrightarrow> P h' = P h) \<Longrightarrow>
   calibrate fw h mp loader = Inr hc \<Longrightarrow> P hc = P h"
proof (induction loader arbitrary: h)
  case Nil
  then show ?case by simp
next
  case (Cons b loader)
  from Cons.prems(2) obtain x y h1 where
    "model_forward fw NoGrad h mp x = Inr (y, h1)" and c: "calibrate fw h1 mp loader = Inr hc"
    by (auto simp: ebind_def split: sum.splits)
  with Cons.prems(1) have "P h1 = P h" by blast
  with Cons.IH[OF Cons.prems(1) c] show ?case by simp
qed

lemma apply_ptq_steps:
  "apply_ptq fw h model loader = Inr (mq, model', h') \<longleftrightarrow>
     (\<exists>qc mp h1 hc mq0 h2 r h3 r' h4 r''.
        get_default_qconfig fw ''fbgemm'' = Inr qc
      \<and> model' = model\<lparr>qconfig := Some qc\<rparr>
      \<and> prepare fw h model' = Inr (mp, h1)
      \<and> calibrate fw h1 mp loader = Inr hc
      \<and> convert fw hc mp = Inr (mq0, h2)
      \<and> half fw h2 (wte model) = Inr (r, h3)
      \<and> half fw h3 (wpe model) = Inr (r', h4)
      \<and> half fw h4 (lm_head model) = Inr (r'', h')
      \<and> mq = mq0\<lparr>wte := r, wpe := r', lm_head := r''\<rparr>)"
  by (auto simp: apply_ptq_def ebind_def split: sum.splits prod.splits)

lemma apply_ptq_inputs:
  "apply_ptq fw h model loader = Inr res \<Longrightarrow> \<exists>xs. batches_inputs fw loader = Inr xs"
  by (auto simp: apply_ptq_def ebind_def split: sum.splits prod.splits dest: calibrate_inputs)

lemma apply_ptq_logged:
  "apply_ptq (logged fw) (h, l) model loader =
     ebind (apply_ptq fw h model loader) (\<lambda>(mq, model', h').
     ebind (batches_inputs fw loader) (\<lambda>xs.
       Inr (mq, model',
            (h', l @ [Prepare] @ map (ModelCall NoGrad) xs
                    @ [Convert, Half (wte model), Half (wpe model), Half (lm_head model)]))))"
  by (auto simp: apply_ptq_def ebind_def logged_fields calibrate_logged
        split: sum.splits prod.splits dest: calibrate_inputs)

lemma batches_inputs_length:
  "batches_inputs fw loader = Inr xs \<Longrightarrow> length xs = length loader"
proof (induction loader arbitrary: xs)
  case Nil
  then show ?case by simp
next
  case (Cons b loader)
  then show ?case by (auto simp: ebind_def split: sum.splits)
qed

text \<open>
  Claim C3, as stated, fails: the conversion is not the last step. After it the function calls
  \<^verbatim>\<open>half()\<close> on three submodules of the original model and stores them in the converted
  model, so the model it returns is not the model \<^verbatim>\<open>convert\<close> returned.
\<close>

theorem apply_ptq_steps_counterexample:
  "map_sum id (\<lambda>(mq, m, hl). (mq, snd hl))
     (apply_ptq (logged toy_quantization) (toy_heap, []) toy_gpt2 [[''input_ids'' \<mapsto> [1, 2]]])
     = Inr (\<lparr>qconfig = Some ''fbgemm'', wte = 0, wpe = 1, lm_head = 2\<rparr>,
            [Prepare, ModelCall NoGrad [1, 2], Convert, Half 0, Half 1, Half 2])
   \<and> map_sum id fst
       (convert toy_quantization toy_heap \<lparr>qconfig = Some ''fbgemm'', wte = 10, wpe = 11, lm_head = 12\<rparr>)
     = Inr \<lparr>qconfig = Some ''fbgemm'', wte = 20, wpe = 21, lm_head = 22\<rparr>"
  by (simp add: apply_ptq_def logged_def toy_quantization_def toy_gpt2_def ebind_def
        copy_model_def Module_half_def batch_inputs_def)

text \<open>
  Claim C3, amended. \<^verbatim>\<open>apply_ptq\<close> performs these steps and no others, in this order: it
  assigns the default configuration for \<^verbatim>\<open>fbgemm\<close> to the model, prepares the model, calls
  the prepared model once on the inputs of every batch of the loader with gradient tracking
  disabled, converts the prepared model, and then calls \<^verbatim>\<open>half()\<close> on the \<^verbatim>\<open>wte\<close>, \<^verbatim>\<open>wpe\<close>
  and \<^verbatim>\<open>lm_head\<close> of the original model and stores the three in the converted model, which it
  returns. Whatever a single call of the model leaves unchanged, as it does the parameters,
  the calibration loop leaves unchanged.
\<close>

theorem apply_ptq_steps_in_order:
  "(apply_ptq fw h model train_dataloader = Inr (model_quantized, model', h') \<longrightarrow>
      (\<exists>qc model_prepared h1 hc converted h2 r h3 r' h4 r''.
          get_default_qconfig fw ''fbgemm'' = Inr qc
        \<and> model' = model\<lparr>qconfig := Some qc\<rparr>
        \<and> prepare fw h model' = Inr (model_prepared, h1)
        \<and> calibrate fw h1 model_prepared train_dataloader = Inr hc
        \<and> convert fw hc model_prepared = Inr (converted, h2)
        \<and> half fw h2 (wte model) = Inr (r, h3)
        \<and> half fw h3 (wpe model) = Inr (r', h4)
        \<and> half fw h4 (lm_head model) = Inr (r'', h')
        \<and> model_quantized = converted\<lparr>wte := r, wpe := r', lm_head := r''\<rparr>))
   \<and> (apply_ptq fw h model train_dataloader = Inr (model_quantized, model', h') \<longrightarrow>
      (\<exists>xs. batches_inputs fw train_dataloader = Inr xs
        \<and> length xs = length train_dataloader
        \<and> apply_ptq (logged fw) (h, []) model train_dataloader =
            Inr (model_quantized, model',
                 (h', Prepare # map (ModelCall NoGrad) xs
                        @ [Convert, Half (wte model), Half (wpe model), Half (lm_head model)]))))
   \<and> ((\<forall>h m x y h'. model_forward fw NoGrad h m x = Inr (y, h') \<longrightarrow> P h' = P h)
        \<and> calibrate fw h1 mp train_dataloader = Inr hc \<longrightarrow> P hc = P h1)"
proof (intro conjI impI)
  assume "apply_ptq fw h model train_dataloader = Inr (model_quantized, model', h')"
  then show "\<exists>qc model_prepared h1 hc converted h2 r h3 r' h4 r''.
          get_default_qconfig fw ''fbgemm'' = Inr qc
        \<and> model' = model\<lparr>qconfig := Some qc\<rparr>
        \<and> prepare fw h model' = Inr (model_prepared, h1)
        \<and> calibrate fw h1 model_prepared train_dataloader = Inr hc
        \<and> convert fw hc model_prepared = Inr (converted, h2)
        \<and> half fw h2 (wte model) = Inr (r, h3)
        \<and> half fw h3 (wpe model) = Inr (r', h4)
        \<and> half fw h4 (lm_head model) = Inr (r'', h')
        \<and> model_quantized = converted\<lparr>wte := r, wpe := r', lm_head := r''\<rparr>"
    by (simp only: apply_ptq_steps)
next
  assume a: "apply_ptq fw h model train_dataloader = Inr (model_quantized, model', h')"
  from apply_ptq_inputs [OF a] obtain xs where xs: "batches_inputs fw train_dataloader = Inr xs" ..
  with a batches_inputs_length [OF xs]
  show "\<exists>xs. batches_inputs fw train_dataloader = Inr xs
        \<and> length xs = length train_dataloader
        \<and> apply_ptq (logged fw) (h, []) model train_dataloader =
            Inr (model_quantized, model',
                 (h', Prepare # map (ModelCall NoGrad) xs
                        @ [Convert, Half (wte model), Half (wpe model), Half (lm_head model)]))"
    by (simp add: apply_ptq_logged ebind_def)
next
  assume "(\<forall>h m x y h'. model_forward fw NoGrad h m x = Inr (y, h') \<longrightarrow> P h' = P h)
        \<and> calibrate fw h1 mp train_dataloader = Inr hc"
  then show "P hc = P h1"
    using calibrate_frame [of fw P h1 mp train_dataloader hc] by blast
qed

theorem apply_ptq_steps_in_order_witness:
  "(\<exists>mq m h'.
      apply_ptq toy_quantization toy_heap toy_gpt2 [[''input_ids'' \<mapsto> [1, 2]], [''input_ids'' \<mapsto> [4]]]
        = Inr (mq, m, h')
    \<and> apply_ptq (logged toy_quantization) (toy_heap, []) toy_gpt2
          [[''input_ids'' \<mapsto> [1, 2]], [''input_ids'' \<mapsto> [4]]]
        = Inr (mq, m, (h', [Prepare, ModelCall NoGrad [1, 2], ModelCall NoGrad [4], Convert,
                             Half 0, Half 1, Half 2])))
   \<and> (\<exists>hc. calibrate toy_quantization toy_heap toy_gpt2
               [[''input_ids'' \<mapsto> [1, 2]], [''input_ids'' \<mapsto> [4]]] = Inr hc
         \<and> observed (hc 0) = 2
         \<and> (\<lambda>r. parameters (hc r)) = (\<lambda>r. parameters (toy_heap r)))"
proof -
  obtain hc where cal:
    "calibrate toy_quantization toy_heap toy_gpt2
       [[''input_ids'' \<mapsto> [1, 2]], [''input_ids'' \<mapsto> [4]]] = Inr hc"
    and ob: "observed (hc 0) = 2"
    by (simp add: toy_quantization_def toy_gpt2_def toy_heap_def ebind_def batch_inputs_def)
  have fr: "\<forall>h m x y h'. model_forward toy_quantization NoGrad h m x = Inr (y, h') \<longrightarrow>
              (\<lambda>r. parameters (h' r)) = (\<lambda>r. parameters (h r))"
  proof (intro allI impI)
    fix h :: "ref \<Rightarrow> int submodule" and m :: "string gpt2" and x y :: "int list" and h'
    assume "model_forward toy_quantization NoGrad h m x = Inr (y, h')"
    then have "h' = h(wte m := (h (wte m))\<lparr>observed := Suc (observed (h (wte m)))\<rparr>)"
      by (simp add: toy_quantization_def)
    then show "(\<lambda>r. parameters (h' r)) = (\<lambda>r. parameters (h r))"
      by (simp add: fun_eq_iff)
  qed
  from apply_ptq_steps_in_order
         [where fw = toy_quantization and P = "\<lambda>h r. parameters (h r)" and ?h1.0 = toy_heap
            and mp = toy_gpt2 and hc = hc
            and train_dataloader = "[[''input_ids'' \<mapsto> [1, 2]], [''input_ids'' \<mapsto> [4]]]",
          THEN conjunct2, THEN conjunct2] fr cal
  have par: "(\<lambda>r. parameters (hc r)) = (\<lambda>r. parameters (toy_heap r))"
    by blast
  obtain mq m h' where run:
    "apply_ptq toy_quantization toy_heap toy_gpt2 [[''input_ids'' \<mapsto> [1, 2]], [''input_ids'' \<mapsto> [4]]]
       = Inr (mq, m, h')"
    by (simp add: apply_ptq_def toy_quantization_def ebind_def copy_model_def Module_half_def
          batch_inputs_def)
  have xs: "batches_inputs toy_quantization [[''input_ids'' \<mapsto> [1, 2]], [''input_ids'' \<mapsto> [4]]]
              = Inr [[1, 2], [4]]"
    by (simp add: batch_inputs_def toy_quantization_def ebind_def)
  from apply_ptq_steps_in_order
         [where fw = toy_quantization and h = toy_heap and model = toy_gpt2
            and train_dataloader = "[[''input_ids'' \<mapsto> [1, 2]], [''input_ids'' \<mapsto> [4]]]"
            and model_quantized = mq and model' = m and h' = h',
          THEN conjunct2, THEN conjunct1] run xs
  have "apply_ptq (logged toy_quantization) (toy_heap, []) toy_gpt2
          [[''input_ids'' \<mapsto> [1, 2]], [''input_ids'' \<mapsto> [4]]]
        = Inr (mq, m, (h', [Prepare, ModelCall NoGrad [1, 2], ModelCall NoGrad [4], Convert,
                             Half 0, Half 1, Half 2]))"
    by (simp add: toy_gpt2_def)
  with run cal ob par show ?thesis by blast
qed

text \<open>
  Claim C10. \<^verbatim>\<open>Module.half\<close> casts a module in place and returns it. So when \<^verbatim>\<open>apply_ptq\<close>
  returns, the \<^verbatim>\<open>wte\<close>, \<^verbatim>\<open>wpe\<close> and \<^verbatim>\<open>lm_head\<close> that the original model refers to are in half
  precision, the original model still refers to them, and the returned model refers to the
  very same three submodules.
\<close>

theorem apply_ptq_halves_original_in_place:
  "half fw = Module_half cast
   \<and> apply_ptq fw h model train_dataloader = Inr (model_quantized, model', h') \<longrightarrow>
     precision (h' (wte model)) = FP16 \<and> precision (h' (wpe model)) = FP16
   \<and> precision (h' (lm_head model)) = FP16
   \<and> wte model' = wte model \<and> wpe model' = wpe model \<and> lm_head model' = lm_head model
   \<and> wte model_quantized = wte model \<and> wpe model_quantized = wpe model
   \<and> lm_head model_quantized = lm_head model"
proof
  assume a: "half fw = Module_half cast
     \<and> apply_ptq fw h model train_dataloader = Inr (model_quantized, model', h')"
  then obtain qc converted h2 r h3 r' h4 r'' where
        m': "model' = model\<lparr>qconfig := Some qc\<rparr>"
    and h1: "Module_half cast h2 (wte model) = Inr (r, h3)"
    and h2: "Module_half cast h3 (wpe model) = Inr (r', h4)"
    and h3: "Module_half cast h4 (lm_head model) = Inr (r'', h')"
    and mq: "model_quantized = converted\<lparr>wte := r, wpe := r', lm_head := r''\<rparr>"
    by (auto simp: apply_ptq_steps)
  from h1 h2 h3 m' mq
  show "precision (h' (wte model)) = FP16 \<and> precision (h' (wpe model)) = FP16
   \<and> precision (h' (lm_head model)) = FP16
   \<and> wte model' = wte model \<and> wpe model' = wpe model \<and> lm_head model' = lm_head model
   \<and> wte model_quantized = wte model \<and> wpe model_quantized = wpe model
   \<and> lm_head model_quantized = lm_head model"
    by (auto simp: Module_half_def)
qed

theorem apply_ptq_halves_original_in_place_witness:
  "precision (toy_heap (wte toy_gpt2)) = FP32 \<and> precision (toy_heap (wpe toy_gpt2)) = FP32
   \<and> precision (toy_heap (lm_head toy_gpt2)) = FP32
   \<and> (\<exists>mq m h'.
        apply_ptq toy_quantization toy_heap toy_gpt2 [[''input_ids'' \<mapsto> [1, 2]]] = Inr (mq, m, h')
      \<and> precision (h' (wte toy_gpt2)) = FP16 \<and> precision (h' (wpe toy_gpt2)) = FP16
      \<and> precision (h' (lm_head toy_gpt2)) = FP16
      \<and> wte m = wte toy_gpt2 \<and> wpe m = wpe toy_gpt2 \<and> lm_head m = lm_head toy_gpt2
      \<and> wte mq = wte toy_gpt2 \<and> wpe mq = wpe toy_gpt2 \<and> lm_head mq = lm_head toy_gpt2)"
proof -
  obtain mq m h' where run:
    "apply_ptq toy_quantization toy_heap toy_gpt2 [[''input_ids'' \<mapsto> [1, 2]]] = Inr (mq, m, h')"
    by (simp add: apply_ptq_def toy_quantization_def ebind_def copy_model_def Module_half_def
          batch_inputs_def)
  have hf: "half toy_quantization = Module_half (\<lambda>w. w)"
    by (simp add: toy_quantization_def)
  from apply_ptq_halves_original_in_place
         [where fw = toy_quantization and cast = "\<lambda>w. w" and h = toy_heap and model = toy_gpt2
            and train_dataloader = "[[''input_ids'' \<mapsto> [1, 2]]]"
            and model_quantized = mq and model' = m and h' = h'] hf run
  have "precision (h' (wte toy_gpt2)) = FP16 \<and> precision (h' (wpe toy_gpt2)) = FP16
      \<and> precision (h' (lm_head toy_gpt2)) = FP16
      \<and> wte m = wte toy_gpt2 \<and> wpe m = wpe toy_gpt2 \<and> lm_head m = lm_head toy_gpt2
      \<and> wte mq = wte toy_gpt2 \<and> wpe mq = wpe toy_gpt2 \<and> lm_head mq = lm_head toy_gpt2"
    by blast
  with run show ?thesis by (auto simp: toy_heap_def)
qed

section \<open>Properties of attention-head pruning\<close>

lemma broadcast_dims_length:
  "broadcast_dims xs ys = Some ds \<Longrightarrow> length ds = length xs \<and> length ds = length ys"
  by (induction xs ys arbitrary: ds rule: broadcast_dims.induct)
     (auto split: option.splits if_splits)

lemma broadcast_shapes_length:
  "broadcast_shapes s s' = Some ds \<Longrightarrow> length ds = max (length s) (length s')"
  by (auto simp: broadcast_shapes_def Let_def pad_shape_def dest!: broadcast_dims_length)

lemma mul_inplace_rank:
  "length (shape x) < length (shape y) \<Longrightarrow> mul_inplace x y = Inl RuntimeError"
  by (auto simp: mul_inplace_def split: option.splits dest!: broadcast_shapes_length)

text \<open>
  The weight of a linear layer is a matrix, the mask has three dimensions: whatever the
  values, the in-place product of the two raises, if nothing before it did.
\<close>

lemma prune_heads_raises:
  "length (shape (qkv_weight m)) = 2 \<Longrightarrow> prune_heads m prune_ratio = Inl RuntimeError"
  unfolding prune_heads_def Let_def
  by (auto simp: ebind_def mul_inplace_rank view_3_heads_def norm_dim2_def mean_dim0_def
        topk_smallest_def split: sum.splits)

text \<open>
  Claim C2 does not hold of the code. The mask has the shape \<open>[3 * num_heads, 1, 1]\<close> and the
  weight of \<^verbatim>\<open>qkv\<close> the shape \<open>[3 * dim, dim]\<close>; their broadcast shape has three dimensions,
  so \<^verbatim>\<open>module.qkv.weight.data *= mask\<close> raises and no weight or bias is set to zero. Here on
  a model with one attention module of two heads.
\<close>

theorem prune_attention_heads_raises:
  "prune_attention_heads [NotAttention, VitAttention example_attention_module] (3 / 10)
     = Inl RuntimeError"
  by (simp add: ebind_def prune_heads_raises example_attention_module_def)

section \<open>Properties of the notebooks' pipelines\<close>

lemma run_steps_prefix:
  "fst (run_steps exec cs s) = take (length (fst (run_steps exec cs s))) cs"
  by (induction cs arbitrary: s) (auto split: sum.splits)

lemma run_steps_complete:
  "snd (run_steps exec cs s) = Inr s' \<Longrightarrow> fst (run_steps exec cs s) = cs"
  by (induction cs arbitrary: s) (auto split: sum.splits)

text \<open>
  Claim C7, as stated, fails: the language-model notebook neither prunes nor fuses layers.
\<close>

theorem language_model_notebook_counterexample:
  "PruneAttentionHeads \<notin> set language_model_notebook \<and> FuseBN \<notin> set language_model_notebook"
  by (simp add: language_model_notebook_def)

text \<open>
  Claim C7, amended. Each notebook runs its steps in the order of the pipeline: it loads the
  pretrained model, fine-tunes it with mixed precision, applies its quantization technique
  (post-training quantization in the language-model notebook, quantization-aware fine-tuning
  in the vision notebook), changes layers, exports or optimizes for the runtime and
  benchmarks last. The vision notebook prunes attention heads and then fuses batch
  normalization; the language-model notebook does neither and wraps the attention layers
  instead. Run from top to bottom, the steps that have run are an initial part of the
  notebook, so no step runs before the steps ahead of it have completed, and a run that
  ends without an error has run them all.
\<close>

theorem notebooks_run_pipeline_in_order:
  "sorted (map phase language_model_notebook)
   \<and> sorted (map phase vision_transformer_notebook)
   \<and> remdups (map phase language_model_notebook) = [0, 1, 2, 3, 4, 5]
   \<and> remdups (map phase vision_transformer_notebook) = [0, 1, 2, 3, 4, 5]
   \<and> filter (\<lambda>c. phase c = 2) language_model_notebook = [ApplyPTQ]
   \<and> filter (\<lambda>c. phase c = 2) vision_transformer_notebook = [ApplyQAF]
   \<and> filter (\<lambda>c. phase c = 3) language_model_notebook
       = [WrapQuantizedAttention, WrapCachedQuantizedAttention]
   \<and> filter (\<lambda>c. phase c = 3) vision_transformer_notebook
       = [PruneAttentionHeads, FuseBN, VerifyQuantizedAttention]
   \<and> last language_model_notebook = Benchmark
   \<and> last vision_transformer_notebook = Benchmark
   \<and> fst (run_steps exec cs s) = take (length (fst (run_steps exec cs s))) cs
   \<and> (snd (run_steps exec cs s) = Inr s' \<longrightarrow> fst (run_steps exec cs s) = cs)"
proof (intro conjI impI)
  show "fst (run_steps exec cs s) = take (length (fst (run_steps exec cs s))) cs"
    by (rule run_steps_prefix)
next
  assume "snd (run_steps exec cs s) = Inr s'"
  then show "fst (run_steps exec cs s) = cs" by (rule run_steps_complete)
qed (simp_all add: language_model_notebook_def vision_transformer_notebook_def)

theorem notebooks_run_pipeline_in_order_witness:
  "fst (run_steps (\<lambda>c n. Inr (Suc n)) vision_transformer_notebook (0::nat))
     = vision_transformer_notebook
   \<and> fst (run_steps failing_export language_model_notebook 0)
     = [LoadPretrained, PrepareDataset, FineTuneMixedPrecision, ApplyPTQ,
        WrapQuantizedAttention, WrapCachedQuantizedAttention]"
proof -
  have ok: "snd (run_steps (\<lambda>c n. Inr (Suc n)) vision_transformer_notebook (0::nat)) = Inr 12"
    by (simp add: vision_transformer_notebook_def)
  have n: "length (fst (run_steps failing_export language_model_notebook 0)) = 6"
    by (simp add: language_model_notebook_def failing_export_def)
  have "fst (run_steps (\<lambda>c n. Inr (Suc n)) vision_transformer_notebook (0::nat))
     = vision_transformer_notebook"
    using notebooks_run_pipeline_in_order
            [where exec = "\<lambda>c n. Inr (Suc n)" and cs = vision_transformer_notebook
               and s = "0::nat" and s' = 12] ok
    by blast
  moreover
  have "fst (run_steps failing_export language_model_notebook 0)
     = take (length (fst (run_steps failing_export language_model_notebook 0)))
         language_model_notebook"
    using notebooks_run_pipeline_in_order
            [where exec = failing_export and cs = language_model_notebook and s = 0]
    by blast
  ultimately show ?thesis
    unfolding n by (simp add: language_model_notebook_def)
qed

section \<open>Errors of the libraries reach the caller\<close>

lemma ros_refl: "raises_or_same E r r"
  by (simp add: raises_or_same_def)

lemma ros_ebind:
  "raises_or_same E m' m \<Longrightarrow> (\<And>x. raises_or_same E (f' x) (f x)) \<Longrightarrow>
     raises_or_same E (ebind m' f') (ebind m f)"
proof -
  assume m: "raises_or_same E m' m" and f: "\<And>x. raises_or_same E (f' x) (f x)"
  show ?thesis
  proof (cases "m' = m")
    case True
    show ?thesis
    proof (cases m)
      case (Inl e)
      with True show ?thesis by (simp add: ebind_def raises_or_same_def)
    next
      case (Inr x)
      with True f [of x] show ?thesis by (simp add: ebind_def)
    qed
  next
    case False
    with m obtain e where "e \<in> E" "m' = Inl e" by (auto simp: raises_or_same_def)
    then show ?thesis by (auto simp: ebind_def raises_or_same_def)
  qed
qed

lemma ros_ebind_same:
  "(\<And>x. raises_or_same E (f' x) (f x)) \<Longrightarrow> raises_or_same E (ebind m f') (ebind m f)"
  by (rule ros_ebind [OF ros_refl])

lemma ros_case_prod:
  "(\<And>a b. raises_or_same E (f' a b) (f a b)) \<Longrightarrow>
     raises_or_same E (case p of (a, b) \<Rightarrow> f' a b) (case p of (a, b) \<Rightarrow> f a b)"
  by (cases p) simp

lemma ros_if:
  "(c \<Longrightarrow> raises_or_same E a' a) \<Longrightarrow> (\<not> c \<Longrightarrow> raises_or_same E b' b) \<Longrightarrow>
     raises_or_same E (if c then a' else b') (if c then a else b)"
  by simp

lemmas ros_steps = ros_ebind ros_case_prod ros_if ros_refl

lemma library_raisingD:
  "library_raising E lib' lib \<Longrightarrow> raises_or_same E (lib' md name args s) (lib md name args s)"
  by (simp add: library_raising_def)

lemma callable_raisingD:
  "callable_raising E model' model \<Longrightarrow> raises_or_same E (model' md s x) (model md s x)"
  by (simp add: callable_raising_def)

lemma call_model_raising:
  "library_raising E lib' lib \<Longrightarrow> callable_raising E (call_model lib' m) (call_model lib m)"
  by (simp add: callable_raising_def call_model_def library_raisingD)

lemma call_model_ros:
  "library_raising E lib' lib \<Longrightarrow>
     raises_or_same E (call_model lib' m md s x) (call_model lib m md s x)"
  by (simp add: call_model_def library_raisingD)

lemma call_repeatedly_raising:
  "callable_raising E model' model \<Longrightarrow>
     raises_or_same E (call_repeatedly model' md n s x) (call_repeatedly model md n s x)"
proof (induction n arbitrary: s)
  case 0
  show ?case by (simp add: ros_refl)
next
  case (Suc n)
  show ?case
    unfolding call_repeatedly.simps
    by (intro ros_steps callable_raisingD [OF Suc.prems] Suc.IH [OF Suc.prems])
qed

lemma tokenize_function_raising:
  assumes L: "library_raising E lib' lib"
  shows "raises_or_same E (tokenize_function lib' s examples) (tokenize_function lib s examples)"
  unfolding tokenize_function_def by (intro ros_steps library_raisingD [OF L])

lemma dynamic_quantized_inference_raising:
  assumes L: "library_raising E lib' lib"
  shows "raises_or_same E (dynamic_quantized_inference lib' s model input_ids)
       (dynamic_quantized_inference lib s model input_ids)"
  unfolding dynamic_quantized_inference_def
  by (intro ros_steps library_raisingD [OF L] call_model_ros [OF L])

lemma export_to_onnx_raising:
  assumes L: "library_raising E lib' lib"
  shows "raises_or_same E (export_to_onnx lib' s model input_shape)
       (export_to_onnx lib s model input_shape)"
  unfolding export_to_onnx_def by (intro ros_steps library_raisingD [OF L])

lemma onnx_inference_raising:
  assumes L: "library_raising E lib' lib"
  shows "raises_or_same E (onnx_inference lib' s onnx_path input_ids)
       (onnx_inference lib s onnx_path input_ids)"
  unfolding onnx_inference_def by (intro ros_steps library_raisingD [OF L])

lemma benchmark_lm_raising:
  assumes L: "library_raising E lib' lib"
    and M: "callable_raising E model' model"
  shows "raises_or_same E (benchmark_lm ar lib' model' s input_ids runs)
       (benchmark_lm ar lib model s input_ids runs)"
  unfolding benchmark_lm_def
  by (intro ros_steps library_raisingD [OF L] call_repeatedly_raising [OF M])

lemma QuantizedViT_init_raising:
  assumes L: "library_raising E lib' lib"
  shows "raises_or_same E (QuantizedViT_init lib' s model) (QuantizedViT_init lib s model)"
  unfolding QuantizedViT_init_def by (intro ros_steps library_raisingD [OF L])

lemma QuantizedViT_forward_raising:
  assumes L: "library_raising E lib' lib"
  shows "raises_or_same E (QuantizedViT_forward lib' s self x) (QuantizedViT_forward lib s self x)"
  unfolding QuantizedViT_forward_def
  by (intro ros_steps library_raisingD [OF L] call_model_ros [OF L])

lemma optimize_for_mobile_raising:
  assumes L: "library_raising E lib' lib"
  shows "raises_or_same E (optimize_for_mobile lib' s model) (optimize_for_mobile lib s model)"
  unfolding optimize_for_mobile_def by (intro ros_steps library_raisingD [OF L])

lemma benchmark_vit_raising:
  assumes L: "library_raising E lib' lib"
  shows "raises_or_same E (benchmark_vit ar lib' s model input_shape num_runs)
       (benchmark_vit ar lib s model input_shape num_runs)"
  unfolding benchmark_vit_def
  by (intro ros_steps library_raisingD [OF L]
        call_repeatedly_raising [OF call_model_raising [OF L]])

lemma verify_quantized_attention_raising:
  "library_raising E lib' lib \<Longrightarrow>
     raises_or_same E (verify_quantized_attention lib' s modules)
       (verify_quantized_attention lib s modules)"
proof (induction modules arbitrary: s)
  case Nil
  show ?case by (simp add: ros_refl)
next
  case (Cons m modules)
  obtain is_attention obj where m: "m = (is_attention, obj)" by (cases m)
  show ?case
    unfolding m verify_quantized_attention.simps
    by (intro ros_steps library_raisingD [OF Cons.prems] Cons.IH [OF Cons.prems])
qed

lemma torch_raisingD:
  assumes "torch_raising E fw' fw"
  shows "raises_or_same E (GradScaler fw' s) (GradScaler fw s)"
    and "raises_or_same E (model_train fw' s) (model_train fw s)"
    and "raises_or_same E (model_eval fw' s) (model_eval fw s)"
    and "raises_or_same E (to_device fw' md t) (to_device fw md t)"
    and "raises_or_same E (clone fw' md t) (clone fw md t)"
    and "raises_or_same E (zero_grad fw' s) (zero_grad fw s)"
    and "raises_or_same E (model_call fw' md s t) (model_call fw md s t)"
    and "raises_or_same E (model_call_labels fw' md s t u) (model_call_labels fw md s t u)"
    and "raises_or_same E (criterion fw' md t u) (criterion fw md t u)"
    and "raises_or_same E (scale fw' s t) (scale fw s t)"
    and "raises_or_same E (backward fw' s t) (backward fw s t)"
    and "raises_or_same E (scaler_step fw' s) (scaler_step fw s)"
    and "raises_or_same E (scaler_update fw' s) (scaler_update fw s)"
    and "raises_or_same E (item fw' t) (item fw t)"
    and "raises_or_same E (max1 fw' t) (max1 fw t)"
    and "raises_or_same E (size0 fw' t) (size0 fw t)"
    and "raises_or_same E (eq_sum_item fw' t u) (eq_sum_item fw t u)"
  using assms unfolding torch_raising_def by simp_all

lemma train_batch_raising:
  assumes T: "torch_raising E fw' fw"
  shows "raises_or_same E (train_batch fw' s batch) (train_batch fw s batch)"
  unfolding train_batch_def by (intro ros_steps torch_raisingD [OF T])

lemma validate_batch_raising:
  assumes T: "torch_raising E fw' fw"
  shows "raises_or_same E (validate_batch fw' s batch) (validate_batch fw s batch)"
  unfolding validate_batch_def by (intro ros_steps torch_raisingD [OF T])

lemma fine_tune_batch_raising:
  assumes T: "torch_raising E fw' fw"
  shows "raises_or_same E (fine_tune_batch fw' s batch) (fine_tune_batch fw s batch)"
  unfolding fine_tune_batch_def by (intro ros_steps torch_raisingD [OF T])

lemma epoch_loop_raising:
  assumes S: "\<And>s b. raises_or_same E (step' s b) (step s b)"
  shows "raises_or_same E (epoch_loop ar step' s loader acc) (epoch_loop ar step s loader acc)"
proof (induction loader arbitrary: s acc)
  case Nil
  show ?case by (simp add: ros_refl)
next
  case (Cons b loader)
  obtain total_loss correct n where acc: "acc = (total_loss, correct, n)" by (cases acc)
  show ?case
    unfolding acc epoch_loop.simps
    by (intro ros_steps S Cons)
qed

lemma train_epoch_raising:
  assumes T: "torch_raising E fw' fw"
  shows "raises_or_same E (train_epoch ar fw' s loader) (train_epoch ar fw s loader)"
  unfolding train_epoch_def
  by (intro ros_steps torch_raisingD [OF T] epoch_loop_raising train_batch_raising [OF T])

lemma validate_raising:
  assumes T: "torch_raising E fw' fw"
  shows "raises_or_same E (validate ar fw' s loader) (validate ar fw s loader)"
  unfolding validate_def
  by (intro ros_steps torch_raisingD [OF T] epoch_loop_raising validate_batch_raising [OF T])

lemma fine_tune_loop_raising:
  assumes T: "torch_raising E fw' fw"
  shows "raises_or_same E (fine_tune_loop ar fw' s loader acc) (fine_tune_loop ar fw s loader acc)"
proof (induction loader arbitrary: s acc)
  case Nil
  show ?case by (simp add: ros_refl)
next
  case (Cons b loader)
  show ?case
    unfolding fine_tune_loop.simps
    by (intro ros_steps fine_tune_batch_raising [OF T] Cons)
qed

lemma fine_tune_epochs_raising:
  assumes T: "torch_raising E fw' fw"
  shows "raises_or_same E (fine_tune_epochs ar fw' s loader k printed)
           (fine_tune_epochs ar fw s loader k printed)"
proof (induction k arbitrary: s printed)
  case 0
  show ?case by (simp add: ros_refl)
next
  case (Suc k)
  show ?case
    unfolding fine_tune_epochs.simps
    by (intro ros_steps fine_tune_loop_raising [OF T] Suc)
qed

lemma fine_tune_raising:
  assumes T: "torch_raising E fw' fw"
  shows "raises_or_same E (fine_tune ar fw' s loader epochs) (fine_tune ar fw s loader epochs)"
  unfolding fine_tune_def
  by (intro ros_steps torch_raisingD [OF T] fine_tune_epochs_raising [OF T])

lemma qaf_epochs_raising:
  assumes T: "torch_raising E fw' fw" and L: "library_raising E lib' lib"
  shows "raises_or_same E (qaf_epochs ar fw' lib' s model_qat train_loader val_loader epoch k printed)
           (qaf_epochs ar fw lib s model_qat train_loader val_loader epoch k printed)"
proof (induction k arbitrary: s epoch printed)
  case 0
  show ?case by (simp add: ros_refl)
next
  case (Suc k)
  show ?case
    unfolding qaf_epochs.simps
    by (intro ros_steps library_raisingD [OF L] train_epoch_raising [OF T]
          validate_raising [OF T] Suc)
qed

lemma apply_qaf_raising:
  assumes T: "torch_raising E fw' fw" and L: "library_raising E lib' lib"
  shows "raises_or_same E (apply_qaf ar fw' lib' s model train_loader val_loader epochs)
           (apply_qaf ar fw lib s model train_loader val_loader epochs)"
  unfolding apply_qaf_def
  by (intro ros_steps library_raisingD [OF L] torch_raisingD [OF T]
        qaf_epochs_raising [OF T L])

lemma quantization_raisingD:
  assumes "quantization_raising E fw' fw"
  shows "raises_or_same E (get_default_qconfig fw' b) (get_default_qconfig fw b)"
    and "raises_or_same E (prepare fw' h m) (prepare fw h m)"
    and "raises_or_same E (convert fw' h m) (convert fw h m)"
    and "raises_or_same E (input_to_device fw' t) (input_to_device fw t)"
    and "raises_or_same E (model_forward fw' md h m t) (model_forward fw md h m t)"
    and "raises_or_same E (half fw' h r) (half fw h r)"
  using assms unfolding quantization_raising_def by simp_all

lemma batch_inputs_raising:
  assumes Q: "quantization_raising E fw' fw"
  shows "raises_or_same E (batch_inputs fw' batch) (batch_inputs fw batch)"
  unfolding batch_inputs_def by (intro ros_steps quantization_raisingD [OF Q])

lemma calibrate_raising:
  assumes Q: "quantization_raising E fw' fw"
  shows "raises_or_same E (calibrate fw' h mp loader) (calibrate fw h mp loader)"
proof (induction loader arbitrary: h)
  case Nil
  show ?case by (simp add: ros_refl)
next
  case (Cons b loader)
  show ?case
    unfolding calibrate.simps
    by (intro ros_steps batch_inputs_raising [OF Q] quantization_raisingD [OF Q] Cons)
qed

lemma apply_ptq_raising:
  assumes Q: "quantization_raising E fw' fw"
  shows "raises_or_same E (apply_ptq fw' h model loader) (apply_ptq fw h model loader)"
  unfolding apply_ptq_def
  by (intro ros_steps quantization_raisingD [OF Q] calibrate_raising [OF Q])

lemma layer_raisingD: "layer_raising E f' f \<Longrightarrow> raises_or_same E (f' x) (f x)"
  by (simp add: layer_raising_def)

lemma attention_raisingD:
  assumes "attention_raising E a' a"
  shows "raises_or_same E (query a' x) (query a x)"
    and "raises_or_same E (key a' x) (key a x)"
    and "raises_or_same E (value' a' x) (value' a x)"
  using assms by (simp_all add: attention_raising_def layer_raising_def)

lemma QuantizedAttention_forward_raising:
  assumes A: "attention_raising E self' self"
  shows "raises_or_same E (QuantizedAttention_forward self' h) (QuantizedAttention_forward self h)"
  unfolding QuantizedAttention_forward_def by (intro ros_steps attention_raisingD [OF A])

lemma QuantizedAttention_init_raising:
  assumes Q: "\<And>f. raises_or_same E (quantize_dynamic' f) (quantize_dynamic f)"
  shows "raises_or_same E (QuantizedAttention_init quantize_dynamic' attention)
           (QuantizedAttention_init quantize_dynamic attention)"
  unfolding QuantizedAttention_init_def by (intro ros_steps Q)

lemma CachedQuantizedAttention_init_raising:
  assumes Q: "\<And>f. raises_or_same E (quantize_dynamic' f) (quantize_dynamic f)"
  shows "raises_or_same E (CachedQuantizedAttention_init quantize_dynamic' attention)
           (CachedQuantizedAttention_init quantize_dynamic attention)"
  unfolding CachedQuantizedAttention_init_def
  by (intro ros_steps QuantizedAttention_init_raising Q)

lemma forward_raising:
  assumes A: "attention_raising E self' self"
    and ck: "cached_key self' = cached_key self" and cv: "cached_value self' = cached_value self"
  shows "raises_or_same E (fst (forward self' h)) (fst (forward self h))"
proof -
  note q = attention_raisingD(1) [OF A, unfolded raises_or_same_def]
    and k = attention_raisingD(2) [OF A, unfolded raises_or_same_def]
    and v = attention_raisingD(3) [OF A, unfolded raises_or_same_def]
  show ?thesis
  proof (cases "cached_key self")
    case None
    with ck cv q [of h] k [of h] v [of h] show ?thesis
      by (auto simp: forward_def raises_or_same_def split: sum.splits)
  next
    case (Some c)
    show ?thesis
    proof (cases "last_position h")
      case (Inl e)
      with Some ck cv q [of h] show ?thesis
        by (auto simp: forward_def raises_or_same_def split: sum.splits)
    next
      case (Inr l)
      with Some ck cv q [of h] k [of l] v [of l] show ?thesis
        by (auto simp: forward_def raises_or_same_def split: sum.splits option.splits)
    qed
  qed
qed

lemma prune_attention_heads_first_error:
  "(prune_heads m r = Inl e \<longrightarrow> prune_attention_heads (VitAttention m # modules) r = Inl e)
   \<and> (prune_attention_heads modules r = Inl e \<longrightarrow>
        prune_attention_heads (NotAttention # modules) r = Inl e)
   \<and> (prune_heads m r = Inr m2 \<and> prune_attention_heads modules r = Inl e \<longrightarrow>
        prune_attention_heads (VitAttention m # modules) r = Inl e)"
  by (simp add: ebind_def)

text \<open>
  Claim C5. None of the functions of the notebooks handles an error; in the model each is a
  chain of calls in which an error ends the chain. Take any library and make any of its
  calls raise errors of a set \<open>E\<close> instead of returning. Then each function gives what it gave
  before, when it does not reach such a call, or raises an error of \<open>E\<close>: it never returns
  another value in place of the error, and never raises another error in its place. With
  \<open>E\<close> a single error, the error that the call raised is the error of the function. In
  \<^verbatim>\<open>prune_attention_heads\<close>, whose tensor operations are modelled in full, the error of the
  loop body for a module is the error of the function, and the body raises on every
  matrix-shaped weight. (\<^verbatim>\<open>fuse_bn_recursively\<close> calls nothing of a library that raises
  in the model.)
\<close>

theorem library_errors_reach_the_caller:
  "torch_raising E fw' fw \<and> library_raising E lib' lib \<and> callable_raising E model' model
   \<and> quantization_raising E qw' qw
   \<and> attention_raising E attn' attn
   \<and> attention_raising E self' self
   \<and> cached_key self' = cached_key self \<and> cached_value self' = cached_value self
   \<and> (\<forall>f. raises_or_same E (quantize_dynamic' f) (quantize_dynamic f)) \<longrightarrow>
     raises_or_same E (fine_tune ar fw' s train_dataloader epochs)
        (fine_tune ar fw s train_dataloader epochs)
   \<and> raises_or_same E (tokenize_function lib' s examples) (tokenize_function lib s examples)
   \<and> raises_or_same E (apply_ptq qw' h gpt train_dataloader) (apply_ptq qw h gpt train_dataloader)
   \<and> raises_or_same E (QuantizedAttention_init quantize_dynamic' attn)
        (QuantizedAttention_init quantize_dynamic attn)
   \<and> raises_or_same E (QuantizedAttention_forward attn' hidden_states)
        (QuantizedAttention_forward attn hidden_states)
   \<and> raises_or_same E (CachedQuantizedAttention_init quantize_dynamic' attn)
        (CachedQuantizedAttention_init quantize_dynamic attn)
   \<and> raises_or_same E (fst (forward self' hidden_states)) (fst (forward self hidden_states))
   \<and> raises_or_same E (dynamic_quantized_inference lib' s m input_ids)
        (dynamic_quantized_inference lib s m input_ids)
   \<and> raises_or_same E (export_to_onnx lib' s m input_shape) (export_to_onnx lib s m input_shape)
   \<and> raises_or_same E (onnx_inference lib' s onnx_path input_ids)
        (onnx_inference lib s onnx_path input_ids)
   \<and> raises_or_same E (benchmark_lm ar lib' model' s input_ids runs)
        (benchmark_lm ar lib model s input_ids runs)
   \<and> raises_or_same E (train_epoch ar fw' s loader) (train_epoch ar fw s loader)
   \<and> raises_or_same E (validate ar fw' s loader) (validate ar fw s loader)
   \<and> raises_or_same E (QuantizedViT_init lib' s m) (QuantizedViT_init lib s m)
   \<and> raises_or_same E (QuantizedViT_forward lib' s vit x) (QuantizedViT_forward lib s vit x)
   \<and> raises_or_same E (apply_qaf ar fw' lib' s m loader val_loader epochs)
        (apply_qaf ar fw lib s m loader val_loader epochs)
   \<and> raises_or_same E (verify_quantized_attention lib' s modules)
        (verify_quantized_attention lib s modules)
   \<and> raises_or_same E (optimize_for_mobile lib' s m) (optimize_for_mobile lib s m)
   \<and> raises_or_same E (benchmark_vit ar lib' s m input_shape runs)
        (benchmark_vit ar lib s m input_shape runs)
   \<and> (prune_heads am prune_ratio = Inl e \<longrightarrow>
        prune_attention_heads (VitAttention am # vit_modules) prune_ratio = Inl e)
   \<and> (prune_attention_heads vit_modules prune_ratio = Inl e \<longrightarrow>
        prune_attention_heads (NotAttention # vit_modules) prune_ratio = Inl e)
   \<and> (prune_heads am prune_ratio = Inr am' \<and> prune_attention_heads vit_modules prune_ratio = Inl e
        \<longrightarrow> prune_attention_heads (VitAttention am # vit_modules) prune_ratio = Inl e)
   \<and> (length (shape (qkv_weight am)) = 2 \<longrightarrow>
        prune_attention_heads (VitAttention am # vit_modules) prune_ratio = Inl RuntimeError)"
proof
  assume a: "torch_raising E fw' fw \<and> library_raising E lib' lib \<and> callable_raising E model' model
   \<and> quantization_raising E qw' qw
   \<and> attention_raising E attn' attn
   \<and> attention_raising E self' self
   \<and> cached_key self' = cached_key self \<and> cached_value self' = cached_value self
   \<and> (\<forall>f. raises_or_same E (quantize_dynamic' f) (quantize_dynamic f))"
  then have T: "torch_raising E fw' fw" and L: "library_raising E lib' lib"
    and M: "callable_raising E model' model" and Q: "quantization_raising E qw' qw"
    and A: "attention_raising E attn' attn" and S: "attention_raising E self' self"
    and ck: "cached_key self' = cached_key self" and cv: "cached_value self' = cached_value self"
    and D: "\<And>f. raises_or_same E (quantize_dynamic' f) (quantize_dynamic f)"
    by simp_all
  note parts =
    fine_tune_raising [OF T] tokenize_function_raising [OF L] apply_ptq_raising [OF Q]
    QuantizedAttention_init_raising [of E quantize_dynamic' quantize_dynamic, OF D]
    QuantizedAttention_forward_raising [OF A]
    CachedQuantizedAttention_init_raising [of E quantize_dynamic' quantize_dynamic, OF D]
    forward_raising [OF S ck cv]
    dynamic_quantized_inference_raising [OF L] export_to_onnx_raising [OF L]
    onnx_inference_raising [OF L] benchmark_lm_raising [OF L M]
    train_epoch_raising [OF T] validate_raising [OF T]
    QuantizedViT_init_raising [OF L] QuantizedViT_forward_raising [OF L]
    apply_qaf_raising [OF T L] verify_quantized_attention_raising [OF L]
    optimize_for_mobile_raising [OF L] benchmark_vit_raising [OF L]
  show "raises_or_same E (fine_tune ar fw' s train_dataloader epochs)
        (fine_tune ar fw s train_dataloader epochs)
   \<and> raises_or_same E (tokenize_function lib' s examples) (tokenize_function lib s examples)
   \<and> raises_or_same E (apply_ptq qw' h gpt train_dataloader) (apply_ptq qw h gpt train_dataloader)
   \<and> raises_or_same E (QuantizedAttention_init quantize_dynamic' attn)
        (QuantizedAttention_init quantize_dynamic attn)
   \<and> raises_or_same E (QuantizedAttention_forward attn' hidden_states)
        (QuantizedAttention_forward attn hidden_states)
   \<and> raises_or_same E (CachedQuantizedAttention_init quantize_dynamic' attn)
        (CachedQuantizedAttention_init quantize_dynamic attn)
   \<and> raises_or_same E (fst (forward self' hidden_states)) (fst (forward self hidden_states))
   \<and> raises_or_same E (dynamic_quantized_inference lib' s m input_ids)
        (dynamic_quantized_inference lib s m input_ids)
   \<and> raises_or_same E (export_to_onnx lib' s m input_shape) (export_to_onnx lib s m input_shape)
   \<and> raises_or_same E (onnx_inference lib' s onnx_path input_ids)
        (onnx_inference lib s onnx_path input_ids)
   \<and> raises_or_same E (benchmark_lm ar lib' model' s input_ids runs)
        (benchmark_lm ar lib model s input_ids runs)
   \<and> raises_or_same E (train_epoch ar fw' s loader) (train_epoch ar fw s loader)
   \<and> raises_or_same E (validate ar fw' s loader) (validate ar fw s loader)
   \<and> raises_or_same E (QuantizedViT_init lib' s m) (QuantizedViT_init lib s m)
   \<and> raises_or_same E (QuantizedViT_forward lib' s vit x) (QuantizedViT_forward lib s vit x)
   \<and> raises_or_same E (apply_qaf ar fw' lib' s m loader val_loader epochs)
        (apply_qaf ar fw lib s m loader val_loader epochs)
   \<and> raises_or_same E (verify_quantized_attention lib' s modules)
        (verify_quantized_attention lib s modules)
   \<and> raises_or_same E (optimize_for_mobile lib' s m) (optimize_for_mobile lib s m)
   \<and> raises_or_same E (benchmark_vit ar lib' s m input_shape runs)
        (benchmark_vit ar lib s m input_shape runs)
   \<and> (prune_heads am prune_ratio = Inl e \<longrightarrow>
        prune_attention_heads (VitAttention am # vit_modules) prune_ratio = Inl e)
   \<and> (prune_attention_heads vit_modules prune_ratio = Inl e \<longrightarrow>
        prune_attention_heads (NotAttention # vit_modules) prune_ratio = Inl e)
   \<and> (prune_heads am prune_ratio = Inr am' \<and> prune_attention_heads vit_modules prune_ratio = Inl e
        \<longrightarrow> prune_attention_heads (VitAttention am # vit_modules) prune_ratio = Inl e)
   \<and> (length (shape (qkv_weight am)) = 2 \<longrightarrow>
        prune_attention_heads (VitAttention am # vit_modules) prune_ratio = Inl RuntimeError)"
    by (intro conjI parts impI)
       (simp_all add: prune_attention_heads_first_error prune_heads_raises ebind_def)
qed

theorem library_errors_reach_the_caller_witness:
  "raises_or_same {FrameworkError ''call failed''}
     (train_epoch exact_arith toy_torch_failing 0 [([1, 2, 3], [1, 2, 0]), ([4], [4])])
     (train_epoch exact_arith toy_torch 0 [([1, 2, 3], [1, 2, 0]), ([4], [4])])
   \<and> train_epoch exact_arith toy_torch_failing 0 [([1, 2, 3], [1, 2, 0]), ([4], [4])]
       = Inl (FrameworkError ''call failed'')
   \<and> raises_or_same {FrameworkError ''call failed''}
       (export_to_onnx toy_library_failing 0 PyNone PyNone)
       (export_to_onnx toy_library 0 PyNone PyNone)
   \<and> export_to_onnx toy_library_failing 0 PyNone PyNone = Inl (FrameworkError ''call failed'')
   \<and> export_to_onnx toy_library 0 PyNone PyNone = Inr (PyNone, 2)
   \<and> raises_or_same {FrameworkError ''call failed''}
       (onnx_inference toy_library_failing 0 ''quantized_gpt2.onnx'' PyNone)
       (onnx_inference toy_library 0 ''quantized_gpt2.onnx'' PyNone)
   \<and> onnx_inference toy_library_failing 0 ''quantized_gpt2.onnx'' PyNone = Inl TypeError
   \<and> raises_or_same {FrameworkError ''call failed''}
       (apply_ptq toy_quantization_failing toy_heap toy_gpt2 [[''input_ids'' \<mapsto> [1, 2]]])
       (apply_ptq toy_quantization toy_heap toy_gpt2 [[''input_ids'' \<mapsto> [1, 2]]])
   \<and> apply_ptq toy_quantization_failing toy_heap toy_gpt2 [[''input_ids'' \<mapsto> [1, 2]]]
       = Inl (FrameworkError ''call failed'')
   \<and> raises_or_same {FrameworkError ''call failed''}
       (fst (forward example_attention_failing \<lparr>shape = [1, 2, 1], elems = [1, 2]\<rparr>))
       (fst (forward example_attention \<lparr>shape = [1, 2, 1], elems = [1, 2]\<rparr>))
   \<and> fst (forward example_attention_failing \<lparr>shape = [1, 2, 1], elems = [1, 2]\<rparr>)
       = Inl (FrameworkError ''call failed'')"
proof -
  let ?E = "{FrameworkError ''call failed''}"
  have T: "torch_raising ?E toy_torch_failing toy_torch"
    by (simp add: torch_raising_def toy_torch_failing_def raises_or_same_def)
  have L: "library_raising ?E toy_library_failing toy_library"
    by (simp add: library_raising_def toy_library_failing_def raises_or_same_def)
  have M: "callable_raising ?E (call_model toy_library_failing PyNone)
             (call_model toy_library PyNone)"
    using L by (rule call_model_raising)
  have Q: "quantization_raising ?E toy_quantization_failing toy_quantization"
    by (simp add: quantization_raising_def toy_quantization_failing_def raises_or_same_def)
  have A: "attention_raising ?E (attention.truncate example_attention)
             (attention.truncate example_attention)"
    by (simp add: attention_raising_def layer_raising_def raises_or_same_def)
  have S: "attention_raising ?E example_attention_failing example_attention"
    by (simp add: attention_raising_def layer_raising_def raises_or_same_def
          example_attention_failing_def)
  have C: "cached_key example_attention_failing = cached_key example_attention"
          "cached_value example_attention_failing = cached_value example_attention"
    by (simp_all add: example_attention_failing_def)
  have D: "\<forall>f. raises_or_same ?E ((Inr :: int layer \<Rightarrow> error + int layer) f) (Inr f)"
    by (simp add: raises_or_same_def)
  note t = library_errors_reach_the_caller
    [where E = ?E and fw' = toy_torch_failing and fw = toy_torch
       and lib' = toy_library_failing and lib = toy_library
       and model' = "call_model toy_library_failing PyNone"
       and model = "call_model toy_library PyNone"
       and qw' = toy_quantization_failing and qw = toy_quantization
       and attn' = "attention.truncate example_attention"
       and attn = "attention.truncate example_attention"
       and self' = example_attention_failing and self = example_attention
       and quantize_dynamic' = Inr and quantize_dynamic = Inr
       and s = 0 and loader = "[([1, 2, 3], [1, 2, 0]), ([4], [4])]"
       and m = PyNone and input_shape = PyNone and input_ids = PyNone
       and onnx_path = "''quantized_gpt2.onnx''"
       and h = toy_heap and gpt = toy_gpt2 and train_dataloader = "[[''input_ids'' \<mapsto> [1, 2]]]"
       and hidden_states = "\<lparr>shape = [1, 2, 1], elems = [1, 2]\<rparr>",
     rule_format, OF conjI [OF T conjI [OF L conjI [OF M conjI [OF Q conjI [OF A conjI [OF S
       conjI [OF C(1) conjI [OF C(2) D]]]]]]]]]
  have e1: "train_epoch exact_arith toy_torch_failing 0 [([1, 2, 3], [1, 2, 0]), ([4], [4])]
       = Inl (FrameworkError ''call failed'')"
    by (simp add: train_epoch_def train_batch_def toy_torch_failing_def toy_torch_def ebind_def)
  have e2: "export_to_onnx toy_library_failing 0 PyNone PyNone
       = Inl (FrameworkError ''call failed'')"
    and e3: "export_to_onnx toy_library 0 PyNone PyNone = Inr (PyNone, 2)"
    and e4: "onnx_inference toy_library_failing 0 ''quantized_gpt2.onnx'' PyNone = Inl TypeError"
    by (simp_all add: export_to_onnx_def onnx_inference_def toy_library_failing_def
          toy_library_def ebind_def index0_def)
  have e5: "apply_ptq toy_quantization_failing toy_heap toy_gpt2 [[''input_ids'' \<mapsto> [1, 2]]]
       = Inl (FrameworkError ''call failed'')"
    by (simp add: apply_ptq_def toy_quantization_failing_def toy_quantization_def ebind_def
          copy_model_def batch_inputs_def)
  have e6: "fst (forward example_attention_failing \<lparr>shape = [1, 2, 1], elems = [1, 2]\<rparr>)
       = Inl (FrameworkError ''call failed'')"
    by (simp add: forward_def example_attention_failing_def example_attention_def scale_layer_def)
  from t e1 e2 e3 e4 e5 e6 show ?thesis by blast
qed

end
